theory Spec2Isabelle
  imports Main "HOL-Library.Word" "HOL-Library.Sublist"
begin

unbundle bit_operations_syntax

section \<open>Go strings and the library functions used by the command line tool\<close>

text \<open>
  Go strings are byte sequences: \<^typ>\<open>string\<close>. The functions of Go's \<^verbatim>\<open>strings\<close>
  package that \<^verbatim>\<open>cmd/longtail/main.go\<close> calls are modelled on bytes.
\<close>

definition backslash :: char where
  "backslash = CHR 0x5C"

text \<open>
  \<^verbatim>\<open>strings.Replace(s, old, new, -1)\<close>: every non-overlapping occurrence of \<open>old\<close> is
  replaced, scanning from the left. For an empty \<open>old\<close> Go inserts \<open>new\<close> before every
  UTF-8 sequence and at the end; that branch is written on bytes and is not reached from
  \<^verbatim>\<open>main.go\<close>.
\<close>

function strings_Replace :: "string \<Rightarrow> string \<Rightarrow> string \<Rightarrow> string" where
  "strings_Replace s old new =
     (if old = [] then new @ concat (map (\<lambda>c. c # new) s)
      else if s = [] then []
      else if prefix old s then new @ strings_Replace (drop (length old) s) old new
      else hd s # strings_Replace (tl s) old new)"
  by pat_completeness auto
termination
  by (relation "measure (\<lambda>(s, old, new). length s)") auto

declare strings_Replace.simps [simp del]

section \<open>normalizePath (main.go, lines 29-34)\<close>

definition normalizePath :: "string \<Rightarrow> string" where
  "normalizePath path =
     (let doubleForwardRemoved = strings_Replace path ''//'' ''/'';
          doubleBackwardRemoved = strings_Replace doubleForwardRemoved [backslash, backslash] ''/'';
          backwardRemoved = strings_Replace doubleBackwardRemoved [backslash] ''/''
      in backwardRemoved)"

section \<open>Go values shared by the commands\<close>

type_synonym u16 = "16 word"
type_synonym u32 = "32 word"
type_synonym u64 = "64 word"

text \<open>The library's \<^verbatim>\<open>errno\<close> results are Go \<^verbatim>\<open>int\<close>s; zero is success.\<close>

type_synonym errno = int

text \<open>
  Go \<^verbatim>\<open>error\<close> values. \<open>LibraryError\<close> is an error handed back by a function outside
  \<^verbatim>\<open>main.go\<close> (reading a URI, opening a blob store); \<open>ErrnoError\<close> is
  \<^verbatim>\<open>errors.Wrapf(longtaillib.ErrnoToError(errno, ...), message)\<close>; the others are the
  \<^verbatim>\<open>fmt.Errorf\<close> values of \<^verbatim>\<open>main.go\<close>, with their arguments. A Go \<^verbatim>\<open>error\<close>
  that may be \<^verbatim>\<open>nil\<close> is an \<open>error option\<close>.
\<close>

datatype error =
    LibraryError string
  | ErrnoError errno string
  | AzureGen1NotImplemented
  | AzureGen2NotImplemented
  | InvalidScheme string
  | UnableToResolveTargetPath string
  | AssetCountMismatch
  | InvalidPath string
  | AssetSizeMismatch nat
  | AssetHashMismatch nat
  | AssetPermissionMismatch nat
  | FileCountMismatch string string
  | IllegalFilePath string

text \<open>
  How a Go call ends: it returns, it panics, the process exits in \<^verbatim>\<open>log.Fatal\<close>, or a
  loop never ends.
\<close>

datatype panic = IndexOutOfRange | SliceBoundsOutOfRange | NilPointerDereference | PanicError error

datatype 'a outcome = Returned 'a | Panicked panic | Exited error | Diverged

text \<open>\<^verbatim>\<open>xs[i]\<close> and \<^verbatim>\<open>s[n:]\<close>: \<open>None\<close> is the run-time panic.\<close>

definition go_index :: "'a list \<Rightarrow> int \<Rightarrow> 'a option" where
  "go_index xs i = (if 0 \<le> i \<and> i < int (length xs) then Some (xs ! nat i) else None)"

definition go_slice_from :: "string \<Rightarrow> nat \<Rightarrow> string option" where
  "go_slice_from s n = (if n \<le> length s then Some (drop n s) else None)"

text \<open>\<^verbatim>\<open>strings.HasPrefix\<close>.\<close>

definition strings_HasPrefix :: "string \<Rightarrow> string \<Rightarrow> bool" where
  "strings_HasPrefix s pre = prefix pre s"

text \<open>
  \<^verbatim>\<open>strings.Split(s, sep)\<close>: the pieces between the non-overlapping occurrences of
  \<open>sep\<close>, scanning from the left; one more piece than there are occurrences, so never an
  empty list. \<open>splitFrom s sep cur\<close> carries the piece read so far. For an empty \<open>sep\<close> Go
  splits after each UTF-8 sequence; that branch is written on bytes and is not reached from
  \<^verbatim>\<open>main.go\<close>.
\<close>

function splitFrom :: "string \<Rightarrow> string \<Rightarrow> string \<Rightarrow> string list" where
  "splitFrom s sep cur =
     (if s = [] then [cur]
      else if sep \<noteq> [] \<and> prefix sep s then cur # splitFrom (drop (length sep) s) sep []
      else splitFrom (tl s) sep (cur @ [hd s]))"
  by pat_completeness auto
termination
  by (relation "measure (\<lambda>(s, sep, cur). length s)") auto

declare splitFrom.simps [simp del]

definition strings_Split :: "string \<Rightarrow> string \<Rightarrow> string list" where
  "strings_Split s sep = (if sep = [] then map (\<lambda>c. [c]) s else splitFrom s sep [])"

section \<open>createBlockStoreForURI (main.go, lines 36-79)\<close>

text \<open>The fields of \<^verbatim>\<open>url.URL\<close> that the code reads.\<close>

record URL =
  Scheme :: string
  Host :: string
  Path :: string

datatype AccessType = Init | ReadWrite | ReadOnly

text \<open>
  Blob stores and block stores, by the constructor call that made them.
  \<open>NoBlockStore\<close> is the zero value \<^verbatim>\<open>longtaillib.Longtail_BlockStoreAPI{}\<close>.
\<close>

datatype blob_store =
    GCSBlobStore URL
  | S3BlobStore string string

datatype block_store =
    NoBlockStore
  | RemoteBlockStore blob_store string nat AccessType
  | FSBlockStore string
  | CacheBlockStore block_store block_store
  | CompressBlockStore block_store
  | LRUBlockStore block_store nat
  | ShareBlockStore block_store

text \<open>
  \<^verbatim>\<open>NewS3BlobStore\<close> (longtailstorelib/s3Store.go, lines 45-64), called without options:
  the bucket is the host, the prefix is the path without its first byte (when the path is
  not empty) followed by a slash (when that is not empty).
\<close>

definition NewS3BlobStore :: "URL \<Rightarrow> error + blob_store" where
  "NewS3BlobStore u =
     (if Scheme u \<noteq> ''s3'' then Inl (InvalidScheme (Scheme u))
      else
        let prefix0 = (if length (Path u) > 0 then drop 1 (Path u) else Path u);
            prefix1 = (if prefix0 \<noteq> '''' then prefix0 @ ''/'' else prefix0)
        in Inr (S3BlobStore (Host u) prefix1))"

text \<open>
  What lies outside the files at hand, as parameters: Go's \<^verbatim>\<open>url.Parse\<close>, and the
  errors of \<^verbatim>\<open>longtailstorelib.NewGCSBlobStore\<close> and
  \<^verbatim>\<open>longtailstorelib.NewRemoteBlockStore\<close> (\<open>None\<close>: the constructor succeeds).
  \<open>numWorkerCount\<close> is \<^verbatim>\<open>runtime.NumCPU()\<close>.
\<close>

record store_env =
  url_Parse :: "string \<Rightarrow> error + URL"
  NewGCSBlobStore_err :: "URL \<Rightarrow> error option"
  NewRemoteBlockStore_err :: "blob_store \<Rightarrow> string \<Rightarrow> AccessType \<Rightarrow> error option"
  numWorkerCount :: nat

text \<open>
  The function returns a pair (store, error); \<open>Inl\<close> is the return with an error and
  \<open>Inr\<close> the return of a store with a nil error. The switch on the scheme is written as
  the chain of comparisons it is; the arguments \<open>targetBlockSize\<close> and \<open>maxChunksPerBlock\<close>
  are not read by the body.
\<close>

definition createBlockStoreForURI ::
  "store_env \<Rightarrow> string \<Rightarrow> string \<Rightarrow> u32 \<Rightarrow> u32 \<Rightarrow> AccessType \<Rightarrow> (error + block_store) outcome" where
  "createBlockStoreForURI env uri optionalStoreIndexPath targetBlockSize maxChunksPerBlock accessType =
     (case url_Parse env uri of
        Inr blobStoreURL \<Rightarrow>
          if Scheme blobStoreURL = ''gs'' then
            (case NewGCSBlobStore_err env blobStoreURL of
               Some err \<Rightarrow> Returned (Inl err)
             | None \<Rightarrow>
                 (case NewRemoteBlockStore_err env (GCSBlobStore blobStoreURL) optionalStoreIndexPath accessType of
                    Some err \<Rightarrow> Returned (Inl err)
                  | None \<Rightarrow> Returned (Inr (RemoteBlockStore (GCSBlobStore blobStoreURL)
                                optionalStoreIndexPath (numWorkerCount env) accessType))))
          else if Scheme blobStoreURL = ''s3'' then
            (case NewS3BlobStore blobStoreURL of
               Inl err \<Rightarrow> Returned (Inl err)
             | Inr s3BlobStore \<Rightarrow>
                 (case NewRemoteBlockStore_err env s3BlobStore optionalStoreIndexPath accessType of
                    Some err \<Rightarrow> Returned (Inl err)
                  | None \<Rightarrow> Returned (Inr (RemoteBlockStore s3BlobStore
                                optionalStoreIndexPath (numWorkerCount env) accessType))))
          else if Scheme blobStoreURL = ''abfs'' then Returned (Inl AzureGen1NotImplemented)
          else if Scheme blobStoreURL = ''abfss'' then Returned (Inl AzureGen2NotImplemented)
          else if Scheme blobStoreURL = ''file'' then
            (case go_slice_from (Path blobStoreURL) 1 of
               None \<Rightarrow> Panicked SliceBoundsOutOfRange
             | Some p \<Rightarrow> Returned (Inr (FSBlockStore p)))
          else Returned (Inr (FSBlockStore uri))
      | Inl parseErr \<Rightarrow> Returned (Inr (FSBlockStore uri)))"

section \<open>Version indexes, store indexes and the library behind the commands\<close>

text \<open>
  A version index as the Go wrapper shows it: the hash identifier, the target chunk size,
  one entry per asset (the per-asset arrays all have the length of the asset count, so
  they are one list of entries), the chunk table and the flat sequence of chunk indexes.
\<close>

record asset =
  assetPath :: string
  assetSize :: u64
  assetHash :: u64
  assetPermissions :: u16
  assetChunkCount :: u32
  assetChunkIndexStart :: u32

record version_index =
  HashIdentifier :: u32
  TargetChunkSize :: u32
  Assets :: "asset list"
  ChunkHashes :: "u64 list"
  AssetChunkIndexes :: "u32 list"

definition GetAssetCount :: "version_index \<Rightarrow> u32" where
  "GetAssetCount v = of_nat (length (Assets v))"

definition GetAssetSizes :: "version_index \<Rightarrow> u64 list" where
  "GetAssetSizes v = map assetSize (Assets v)"

definition GetAssetHashes :: "version_index \<Rightarrow> u64 list" where
  "GetAssetHashes v = map assetHash (Assets v)"

definition GetAssetPath :: "version_index \<Rightarrow> nat \<Rightarrow> string" where
  "GetAssetPath v i = assetPath (Assets v ! i)"

definition GetAssetPermissions :: "version_index \<Rightarrow> nat \<Rightarrow> u16" where
  "GetAssetPermissions v i = assetPermissions (Assets v ! i)"

record store_index =
  BlockHashes :: "u64 list"
  StoreChunkHashes :: "u64 list"

text \<open>
  A hash API handle is known by the identifier it was looked up with; \<open>NoHashAPI\<close> is the
  zero value. File infos are the scanned paths. A version diff is opaque to \<^verbatim>\<open>main.go\<close>.
\<close>

datatype hash_api = NoHashAPI | HashAPI u32

type_synonym file_infos = "string list"

datatype version_diff = VersionDiff "string list" "string list" "string list"

text \<open>
  The target folder is read twice by downsync: before \<^verbatim>\<open>ChangeVersion\<close> and, when
  validating, after it. The phase tells the two states of the disk apart.
\<close>

datatype phase = BeforeChange | AfterChange

text \<open>
  The functions of \<^verbatim>\<open>longtaillib\<close>, \<^verbatim>\<open>longtailutils\<close> and \<^verbatim>\<open>longtailstorelib\<close> that
  the commands call, \<^verbatim>\<open>os.Open\<close> with the lines a \<^verbatim>\<open>bufio.Scanner\<close> reads from
  the file and the scanner's final error, and Go's \<^verbatim>\<open>strings.TrimSpace\<close>, which trims
  the white space of Unicode. They are parameters: their code is not in the files at hand.
  Results keep Go's order (value, errno).
\<close>

record env =
  stores :: store_env
  MakeRegexPathFilter_err :: "string \<Rightarrow> string \<Rightarrow> error option"
  ReadFromURI :: "string \<Rightarrow> error + string"
  WriteToURI_err :: "string \<Rightarrow> string \<Rightarrow> error option"
  ReadVersionIndexFromBuffer :: "string \<Rightarrow> version_index \<times> errno"
  ReadStoreIndexFromBuffer :: "string \<Rightarrow> store_index \<times> errno"
  WriteStoreIndexToBuffer :: "store_index \<Rightarrow> string \<times> errno"
  GetFilesRecursively :: "phase \<Rightarrow> string \<Rightarrow> file_infos \<times> errno"
  GetHashAPI_errno :: "u32 \<Rightarrow> errno"
  CreateVersionIndex :: "phase \<Rightarrow> hash_api \<Rightarrow> string \<Rightarrow> file_infos \<Rightarrow> u32 list option \<Rightarrow> u32
                           \<Rightarrow> version_index \<times> errno"
  CreateVersionDiff :: "hash_api \<Rightarrow> version_index \<Rightarrow> version_index \<Rightarrow> version_diff \<times> errno"
  GetRequiredChunkHashes :: "version_index \<Rightarrow> version_diff \<Rightarrow> u64 list \<times> errno"
  GetExistingStoreIndexSync :: "block_store \<Rightarrow> u64 list \<Rightarrow> u32 \<Rightarrow> store_index \<times> errno"
  ValidateStore :: "store_index \<Rightarrow> version_index \<Rightarrow> errno"
  ChangeVersion_errno :: "block_store \<Rightarrow> hash_api \<Rightarrow> store_index \<Rightarrow> version_index \<Rightarrow> version_index
                           \<Rightarrow> version_diff \<Rightarrow> string \<Rightarrow> bool \<Rightarrow> errno"
  FlushStoresSync_errno :: "block_store list \<Rightarrow> errno"
  PruneBlocksSync :: "block_store \<Rightarrow> u64 list \<Rightarrow> u32 \<times> errno"
  os_Open :: "string \<Rightarrow> error + (string list \<times> error option)"
  strings_TrimSpace :: "string \<Rightarrow> string"

text \<open>The calls and messages a command leaves behind, in program order.\<close>

datatype call =
    CreateBlockStoreCall string string AccessType
  | GetFilesRecursivelyCall phase string
  | ReadTargetIndex string string u32 u32 u32
  | CreateVersionIndexCall phase hash_api string u32
  | ChangeVersionCall string bool
  | GetExistingStoreIndexCall block_store "u64 list" u32
  | WriteToURICall string string
  | PruneBlocksCall block_store "u64 list"
  | FlushCall "block_store list"
  | LogMissingData string string
  | PrintWouldKeep nat
  | PrintPruned u32

definition noCompressionType :: u32 where
  "noCompressionType = 0"

section \<open>Reading the index of a folder (main.go, lines 81-88 and 128-268)\<close>

definition getCompressionTypesForFiles :: "file_infos \<Rightarrow> u32 \<Rightarrow> u32 list" where
  "getCompressionTypesForFiles fileInfos compressionType = replicate (length fileInfos) compressionType"

text \<open>
  \<^verbatim>\<open>asyncFolderScanner\<close>: the zero value, and the fields after \<^verbatim>\<open>scan\<close> has run. The
  goroutine is run at the call and its result is read by \<^verbatim>\<open>get\<close>.
\<close>

record asyncFolderScanner =
  scanner_fileInfos :: file_infos
  scanner_err :: "error option"

definition newFolderScanner :: asyncFolderScanner where
  "newFolderScanner = \<lparr>scanner_fileInfos = [], scanner_err = None\<rparr>"

definition scan :: "env \<Rightarrow> phase \<Rightarrow> string \<Rightarrow> call list \<times> asyncFolderScanner" where
  "scan e ph sourceFolderPath =
     (case GetFilesRecursively e ph (normalizePath sourceFolderPath) of (fileInfos, errno) \<Rightarrow>
        ([GetFilesRecursivelyCall ph (normalizePath sourceFolderPath)],
         \<lparr>scanner_fileInfos = fileInfos,
          scanner_err = (if errno \<noteq> 0 then Some (ErrnoError errno ''longtaillib.GetFilesRecursively() failed'')
                         else None)\<rparr>))"

text \<open>
  \<^verbatim>\<open>getFolderIndex\<close>: with no index path the folder is indexed with the given hash
  identifier and target chunk size; with one, the index is read from that path.
\<close>

definition getFolderIndex ::
  "env \<Rightarrow> phase \<Rightarrow> string \<Rightarrow> string \<Rightarrow> u32 \<Rightarrow> u32 \<Rightarrow> u32 \<Rightarrow> asyncFolderScanner
     \<Rightarrow> call list \<times> (error + version_index \<times> hash_api)" where
  "getFolderIndex e ph sourceFolderPath sourceIndexPath targetChunkSize compressionType hashIdentifier scanner =
     (if sourceIndexPath = '''' then
        (case scanner_err scanner of
           Some err \<Rightarrow> ([], Inl err)
         | None \<Rightarrow>
             let fileInfos = scanner_fileInfos scanner;
                 compressionTypes = getCompressionTypesForFiles fileInfos compressionType
             in if GetHashAPI_errno e hashIdentifier \<noteq> 0
                then ([], Inl (ErrnoError (GetHashAPI_errno e hashIdentifier) ''hashRegistry.GetHashAPI() failed''))
                else
                  let hash = HashAPI hashIdentifier;
                      calls = [CreateVersionIndexCall ph hash (normalizePath sourceFolderPath) targetChunkSize]
                  in (case CreateVersionIndex e ph hash (normalizePath sourceFolderPath) fileInfos
                             (Some compressionTypes) targetChunkSize of
                        (vindex, errno) \<Rightarrow>
                          if errno \<noteq> 0
                          then (calls, Inl (ErrnoError errno ''longtaillib.CreateVersionIndex() failed''))
                          else (calls, Inr (vindex, hash))))
      else
        (case ReadFromURI e sourceIndexPath of
           Inl err \<Rightarrow> ([], Inl err)
         | Inr vbuffer \<Rightarrow>
             (case ReadVersionIndexFromBuffer e vbuffer of
                (vindex, errno) \<Rightarrow>
                  if errno \<noteq> 0
                  then ([], Inl (ErrnoError errno ''longtaillib.ReadVersionIndexFromBuffer() failed''))
                  else if GetHashAPI_errno e hashIdentifier \<noteq> 0
                  then ([], Inl (ErrnoError (GetHashAPI_errno e hashIdentifier) ''hashRegistry.GetHashAPI() failed''))
                  else ([], Inr (vindex, HashAPI hashIdentifier)))))"

section \<open>downSyncVersion (main.go, lines 548-844)\<close>

text \<open>
  Lines 573-584: the target folder. With no target folder given, it is the first
  dot-separated piece of the last slash-separated piece of the normalised source path,
  and the command fails when that is empty. The two indexings are Go's, with their panic.
\<close>

definition resolveTargetFolderPath :: "string \<Rightarrow> string \<Rightarrow> (error + string) outcome" where
  "resolveTargetFolderPath sourceFilePath targetFolderPath =
     (if targetFolderPath = '''' then
        let urlSplit = strings_Split (normalizePath sourceFilePath) ''/'' in
        (case go_index urlSplit (int (length urlSplit) - 1) of
           None \<Rightarrow> Panicked IndexOutOfRange
         | Some sourceName \<Rightarrow>
             let sourceNameSplit = strings_Split sourceName ''.'' in
             (case go_index sourceNameSplit 0 of
                None \<Rightarrow> Panicked IndexOutOfRange
              | Some resolvedTargetFolderPath \<Rightarrow>
                  if resolvedTargetFolderPath = ''''
                  then Returned (Inl (UnableToResolveTargetPath sourceFilePath))
                  else Returned (Inr resolvedTargetFolderPath)))
      else Returned (Inr targetFolderPath))"

text \<open>
  Lines 807-816: the three lookups by path built from the source index. A later asset
  with the same path overwrites an earlier one. A Go map read of an absent key gives the
  zero value.
\<close>

fun buildLookups ::
  "asset list \<Rightarrow> (string \<rightharpoonup> u64) \<times> (string \<rightharpoonup> u64) \<times> (string \<rightharpoonup> u16)
     \<Rightarrow> (string \<rightharpoonup> u64) \<times> (string \<rightharpoonup> u64) \<times> (string \<rightharpoonup> u16)" where
  "buildLookups [] lookups = lookups"
| "buildLookups (a # as) (assetSizeLookup, assetHashLookup, assetPermissionLookup) =
     buildLookups as
       (assetSizeLookup(assetPath a \<mapsto> assetSize a),
        assetHashLookup(assetPath a \<mapsto> assetHash a),
        assetPermissionLookup(assetPath a \<mapsto> assetPermissions a))"

definition map_get :: "('k \<rightharpoonup> 'v::zero) \<Rightarrow> 'k \<Rightarrow> 'v" where
  "map_get m k = (case m k of None \<Rightarrow> 0 | Some v \<Rightarrow> v)"

text \<open>Lines 817-838: the loop over the assets of the re-indexed target; \<open>i\<close> is the index.\<close>

fun validateAssets ::
  "bool \<Rightarrow> (string \<rightharpoonup> u64) \<times> (string \<rightharpoonup> u64) \<times> (string \<rightharpoonup> u16) \<Rightarrow> nat \<Rightarrow> asset list
     \<Rightarrow> error option" where
  "validateAssets retainPermissions lookups i [] = None"
| "validateAssets retainPermissions (assetSizeLookup, assetHashLookup, assetPermissionLookup) i (v # vs) =
     (let validatePath = assetPath v;
          validateSize = assetSize v;
          validateHash = assetHash v;
          exists = (assetSizeLookup validatePath \<noteq> None);
          size = map_get assetSizeLookup validatePath;
          hash = map_get assetHashLookup validatePath
      in if \<not> exists then Some (InvalidPath validatePath)
         else if size \<noteq> validateSize then Some (AssetSizeMismatch i)
         else if hash \<noteq> validateHash then Some (AssetHashMismatch i)
         else if retainPermissions
                 \<and> map_get assetPermissionLookup validatePath \<noteq> assetPermissions v
         then Some (AssetPermissionMismatch i)
         else validateAssets retainPermissions (assetSizeLookup, assetHashLookup, assetPermissionLookup)
                (Suc i) vs)"

text \<open>Lines 798-838: the comparison of the re-indexed target with the source index.\<close>

definition compareWithSource :: "bool \<Rightarrow> version_index \<Rightarrow> version_index \<Rightarrow> error option" where
  "compareWithSource retainPermissions validateVersionIndex sourceVersionIndex =
     (if GetAssetCount validateVersionIndex \<noteq> GetAssetCount sourceVersionIndex
      then Some AssetCountMismatch
      else validateAssets retainPermissions
             (buildLookups (Assets sourceVersionIndex) (Map.empty, Map.empty, Map.empty))
             0 (Assets validateVersionIndex))"

text \<open>
  Lines 768-841: the validation phase. The target folder is scanned and indexed again,
  with the hash API that the target index reader returned and the source's target chunk
  size, and compared with the source index.
\<close>

definition validatePhase ::
  "env \<Rightarrow> bool \<Rightarrow> string \<Rightarrow> hash_api \<Rightarrow> u32 \<Rightarrow> version_index \<Rightarrow> call list \<times> error option" where
  "validatePhase e retainPermissions resolvedTargetFolderPath hash targetChunkSize sourceVersionIndex =
     (case GetFilesRecursively e AfterChange (normalizePath resolvedTargetFolderPath) of
        (validateFileInfos, errno) \<Rightarrow>
          let c1 = [GetFilesRecursivelyCall AfterChange (normalizePath resolvedTargetFolderPath)] in
          if errno \<noteq> 0
          then (c1, Some (ErrnoError errno ''downSyncVersion: longtaillib.GetFilesRecursively() failed''))
          else
            let c2 = c1 @ [CreateVersionIndexCall AfterChange hash
                             (normalizePath resolvedTargetFolderPath) targetChunkSize] in
            (case CreateVersionIndex e AfterChange hash (normalizePath resolvedTargetFolderPath)
                    validateFileInfos None targetChunkSize of
               (validateVersionIndex, errno) \<Rightarrow>
                 if errno \<noteq> 0
                 then (c2, Some (ErrnoError errno ''downSyncVersion: longtaillib.CreateVersionIndex() failed''))
                 else (c2, compareWithSource retainPermissions validateVersionIndex sourceVersionIndex)))"

text \<open>
  Lines 627-766: from the block stores to the flush; then the validation phase when
  asked for. \<open>targetIndex\<close> is what the target index reader, started before, hands to
  \<^verbatim>\<open>get\<close>.
\<close>

definition syncPhase ::
  "env \<Rightarrow> string \<Rightarrow> string \<Rightarrow> bool \<Rightarrow> bool \<Rightarrow> string \<Rightarrow> string \<Rightarrow> version_index
     \<Rightarrow> (error + version_index \<times> hash_api) \<Rightarrow> call list \<times> error option outcome" where
  "syncPhase e blobStoreURI localCachePath retainPermissions validate versionLocalStoreIndexPath
       resolvedTargetFolderPath sourceVersionIndex targetIndex =
     (let hashIdentifier = HashIdentifier sourceVersionIndex;
          targetChunkSize = TargetChunkSize sourceVersionIndex;
          c0 = [CreateBlockStoreCall blobStoreURI versionLocalStoreIndexPath ReadOnly]
      in
      case createBlockStoreForURI (stores e) blobStoreURI versionLocalStoreIndexPath 8388608 1024 ReadOnly of
        Panicked p \<Rightarrow> (c0, Panicked p)
      | Exited err \<Rightarrow> (c0, Exited err)
      | Diverged \<Rightarrow> (c0, Diverged)
      | Returned (Inl err) \<Rightarrow> (c0, Returned (Some err))
      | Returned (Inr remoteIndexStore) \<Rightarrow>
          let localIndexStore = (if localCachePath = '''' then NoBlockStore
                                 else FSBlockStore (normalizePath localCachePath));
              cacheBlockStore = (if localCachePath = '''' then NoBlockStore
                                 else CacheBlockStore localIndexStore remoteIndexStore);
              compressBlockStore = (if localCachePath = '''' then CompressBlockStore remoteIndexStore
                                    else CompressBlockStore cacheBlockStore);
              lruBlockStore = LRUBlockStore compressBlockStore 32;
              indexStore = ShareBlockStore lruBlockStore
          in
          if GetHashAPI_errno e hashIdentifier \<noteq> 0
          then (c0, Returned (Some (ErrnoError (GetHashAPI_errno e hashIdentifier)
                       ''downSyncVersion: longtaillib.GetHashAPI() failed'')))
          else
          (case targetIndex of
             Inl err \<Rightarrow> (c0, Returned (Some err))
           | Inr (targetVersionIndex, hash) \<Rightarrow>
          (case CreateVersionDiff e hash targetVersionIndex sourceVersionIndex of
             (versionDiff, errno) \<Rightarrow>
          if errno \<noteq> 0
          then (c0, Returned (Some (ErrnoError errno ''downSyncVersion: longtaillib.CreateVersionDiff() failed'')))
          else
          (case GetRequiredChunkHashes e sourceVersionIndex versionDiff of
             (chunkHashes, errno) \<Rightarrow>
          if errno \<noteq> 0
          then (c0, Returned (Some (ErrnoError errno ''cloneStore: longtaillib.GetRequiredChunkHashes() failed'')))
          else
          let c1 = c0 @ [GetExistingStoreIndexCall indexStore chunkHashes 0] in
          (case GetExistingStoreIndexSync e indexStore chunkHashes 0 of
             (retargettedVersionStoreIndex, errno) \<Rightarrow>
          if errno \<noteq> 0
          then (c1, Returned (Some (ErrnoError errno ''downSyncVersion: longtailutils.GetExistingStoreIndexSync() failed'')))
          else
          let c2 = c1 @ [ChangeVersionCall (normalizePath resolvedTargetFolderPath) retainPermissions];
              errno = ChangeVersion_errno e indexStore hash retargettedVersionStoreIndex targetVersionIndex
                        sourceVersionIndex versionDiff (normalizePath resolvedTargetFolderPath) retainPermissions
          in
          if errno \<noteq> 0
          then (c2, Returned (Some (ErrnoError errno ''downSyncVersion: longtaillib.ChangeVersion() failed'')))
          else
          let storeList = [indexStore, lruBlockStore, compressBlockStore, cacheBlockStore,
                           localIndexStore, remoteIndexStore];
              c3 = c2 @ [FlushCall storeList];
              errno = FlushStoresSync_errno e storeList
          in
          if errno \<noteq> 0
          then (c3, Returned (Some (ErrnoError errno ''longtailutils.FlushStoresSync: Failed'')))
          else if validate then
            (case validatePhase e retainPermissions resolvedTargetFolderPath hash targetChunkSize
                    sourceVersionIndex of
               (c4, r) \<Rightarrow> (c3 @ c4, Returned r))
          else (c3, Returned None))))))"

text \<open>
  The whole function. The result is the error returned (\<open>None\<close> is nil); the statistics
  returned with it are left out.
\<close>

definition downSyncVersion ::
  "env \<Rightarrow> string \<Rightarrow> string \<Rightarrow> string \<Rightarrow> string \<Rightarrow> string \<Rightarrow> bool \<Rightarrow> bool \<Rightarrow> string \<Rightarrow> string \<Rightarrow> string
     \<Rightarrow> call list \<times> error option outcome" where
  "downSyncVersion e blobStoreURI sourceFilePath targetFolderPath targetIndexPath localCachePath
       retainPermissions validate versionLocalStoreIndexPath includeFilterRegEx excludeFilterRegEx =
     (case MakeRegexPathFilter_err e includeFilterRegEx excludeFilterRegEx of
        Some err \<Rightarrow> ([], Returned (Some err))
      | None \<Rightarrow>
     (case resolveTargetFolderPath sourceFilePath targetFolderPath of
        Panicked p \<Rightarrow> ([], Panicked p)
      | Exited err \<Rightarrow> ([], Exited err)
      | Diverged \<Rightarrow> ([], Diverged)
      | Returned (Inl err) \<Rightarrow> ([], Returned (Some err))
      | Returned (Inr resolvedTargetFolderPath) \<Rightarrow>
     (case (if targetIndexPath = '''' then scan e BeforeChange resolvedTargetFolderPath
            else ([], newFolderScanner)) of
        (c0, targetFolderScanner) \<Rightarrow>
     (case ReadFromURI e sourceFilePath of
        Inl err \<Rightarrow> (c0, Returned (Some err))
      | Inr vbuffer \<Rightarrow>
     (case ReadVersionIndexFromBuffer e vbuffer of
        (sourceVersionIndex, errno) \<Rightarrow>
     if errno \<noteq> 0
     then (c0, Returned (Some (ErrnoError errno ''downSyncVersion: longtaillib.ReadVersionIndexFromBuffer() failed'')))
     else
       let hashIdentifier = HashIdentifier sourceVersionIndex;
           targetChunkSize = TargetChunkSize sourceVersionIndex;
           c1 = c0 @ [ReadTargetIndex resolvedTargetFolderPath targetIndexPath targetChunkSize
                        noCompressionType hashIdentifier]
       in
       (case getFolderIndex e BeforeChange resolvedTargetFolderPath targetIndexPath targetChunkSize
               noCompressionType hashIdentifier targetFolderScanner of
          (c2, targetIndex) \<Rightarrow>
       (case syncPhase e blobStoreURI localCachePath retainPermissions validate versionLocalStoreIndexPath
               resolvedTargetFolderPath sourceVersionIndex targetIndex of
          (c3, r) \<Rightarrow> (c1 @ c2 @ c3, r))))))))"

section \<open>The asset fragmentation of stats (main.go, lines 1542-1566)\<close>

text \<open>
  \<open>blockLookup\<close> is the map from chunk hash to block hash that lines 1493-1532 fill from
  the fetched blocks. The inner loop runs \<open>c\<close> from the asset's first chunk index up to,
  not including, start + count (an unsigned 32-bit sum); \<open>cs\<close> lists these values.
  The pair carried is \<open>lastBlockIndex\<close> and \<open>assetFragmentCount\<close>; the variable
  \<open>uniqueBlockCount\<close> of the source is written and never read.
\<close>

fun countFragments ::
  "(u64 \<rightharpoonup> u64) \<Rightarrow> version_index \<Rightarrow> nat list \<Rightarrow> u64 \<Rightarrow> u64 \<Rightarrow> panic + (u64 \<times> u64)" where
  "countFragments blockLookup v [] lastBlockIndex assetFragmentCount =
     Inr (lastBlockIndex, assetFragmentCount)"
| "countFragments blockLookup v (c # cs) lastBlockIndex assetFragmentCount =
     (case go_index (AssetChunkIndexes v) (int c) of
        None \<Rightarrow> Inl IndexOutOfRange
      | Some chunkIndex \<Rightarrow>
          (case go_index (ChunkHashes v) (uint chunkIndex) of
             None \<Rightarrow> Inl IndexOutOfRange
           | Some chunkHash \<Rightarrow>
               let blockIndex = map_get blockLookup chunkHash in
               if blockIndex \<noteq> lastBlockIndex
               then countFragments blockLookup v cs blockIndex (assetFragmentCount + 1)
               else countFragments blockLookup v cs lastBlockIndex assetFragmentCount))"

definition chunkRange :: "asset \<Rightarrow> nat list" where
  "chunkRange a =
     [unat (assetChunkIndexStart a) ..< unat (assetChunkIndexStart a + assetChunkCount a)]"

fun countAllFragments ::
  "(u64 \<rightharpoonup> u64) \<Rightarrow> version_index \<Rightarrow> asset list \<Rightarrow> u64 \<Rightarrow> panic + u64" where
  "countAllFragments blockLookup v [] assetFragmentCount = Inr assetFragmentCount"
| "countAllFragments blockLookup v (a # as) assetFragmentCount =
     (case countFragments blockLookup v (chunkRange a) (NOT 0) assetFragmentCount of
        Inl p \<Rightarrow> Inl p
      | Inr (lastBlockIndex, assetFragmentCount') \<Rightarrow>
          countAllFragments blockLookup v as assetFragmentCount')"

text \<open>
  The outer loop visits the assets below the asset count; the statistic is then computed
  in 64 bits and cut to 32.
\<close>

definition assetFragmentCount :: "(u64 \<rightharpoonup> u64) \<Rightarrow> version_index \<Rightarrow> panic + u64" where
  "assetFragmentCount blockLookup v =
     countAllFragments blockLookup v (take (unat (GetAssetCount v)) (Assets v)) 0"

definition assetFragmentation :: "(u64 \<rightharpoonup> u64) \<Rightarrow> version_index \<Rightarrow> panic + u32" where
  "assetFragmentation blockLookup v =
     (case assetFragmentCount blockLookup v of
        Inl p \<Rightarrow> Inl p
      | Inr n \<Rightarrow>
          Inr (if GetAssetCount v > 0
               then ucast ((100 * n) div (ucast (GetAssetCount v) :: u64) - 100)
               else 0))"

section \<open>The zip fallback of cloneOneVersion (main.go, lines 1847-1893)\<close>

text \<open>
  An entry of the archive: its name, whether it is a directory, its mode, what
  \<^verbatim>\<open>f.Open()\<close> gives (an error, or the reader's content) and the error of closing that
  reader.
\<close>

record zip_file =
  zip_Name :: string
  zip_IsDir :: bool
  zip_Mode :: nat
  zip_Open :: "error + string"
  zip_Close_err :: "error option"

text \<open>
  Go's \<^verbatim>\<open>path/filepath\<close> and the file operations of \<^verbatim>\<open>os\<close> and \<^verbatim>\<open>io\<close>, as
  parameters of the closure; the section after this one gives the path functions for a Unix
  system. The errors of \<^verbatim>\<open>os.MkdirAll\<close> are not read by the source.
\<close>

record fs_env =
  filepath_Join :: "string \<Rightarrow> string \<Rightarrow> string"
  filepath_Clean :: "string \<Rightarrow> string"
  filepath_Dir :: "string \<Rightarrow> string"
  os_PathSeparator :: char
  os_OpenFile_err :: "string \<Rightarrow> error option"
  io_Copy_err :: "string \<Rightarrow> string \<Rightarrow> error option"
  file_Close_err :: "string \<Rightarrow> error option"

datatype fs_op =
    MkdirAll string nat
  | OpenFile string nat
  | Copy string string

text \<open>
  The body of \<^verbatim>\<open>extractAndWriteFile\<close> after the entry is open: the operations on the
  file system, the error returned, and whether the target file was opened (its deferred
  close then runs).
\<close>

definition extractBody :: "fs_env \<Rightarrow> string \<Rightarrow> zip_file \<Rightarrow> string \<Rightarrow> fs_op list \<times> error option \<times> bool" where
  "extractBody fe targetPath f content =
     (let path = filepath_Join fe targetPath (zip_Name f) in
      if \<not> strings_HasPrefix path (filepath_Clean fe targetPath @ [os_PathSeparator fe])
      then ([], Some (IllegalFilePath path), False)
      else if zip_IsDir f then ([MkdirAll path (zip_Mode f)], None, False)
      else
        let ops = [MkdirAll (filepath_Dir fe path) 511, OpenFile path (zip_Mode f)] in
        (case os_OpenFile_err fe path of
           Some err \<Rightarrow> (ops, Some err, False)
         | None \<Rightarrow>
             (case io_Copy_err fe path content of
                Some err \<Rightarrow> (ops @ [Copy path content], Some err, True)
              | None \<Rightarrow> (ops @ [Copy path content], None, True))))"

text \<open>
  The closure itself. The two deferred closes panic on an error; the reader's close runs
  last, so its panic is the one that is left.
\<close>

definition extractAndWriteFile :: "fs_env \<Rightarrow> string \<Rightarrow> zip_file \<Rightarrow> fs_op list \<times> error option outcome" where
  "extractAndWriteFile fe targetPath f =
     (case zip_Open f of
        Inl err \<Rightarrow> ([], Returned (Some err))
      | Inr content \<Rightarrow>
          (case extractBody fe targetPath f content of
             (ops, r, opened) \<Rightarrow>
               (case zip_Close_err f of
                  Some err \<Rightarrow> (ops, Panicked (PanicError err))
                | None \<Rightarrow>
                    (case (if opened
                           then file_Close_err fe (filepath_Join fe targetPath (zip_Name f))
                           else None) of
                       Some err \<Rightarrow> (ops, Panicked (PanicError err))
                     | None \<Rightarrow> (ops, Returned r)))))"

text \<open>Lines 1888-1893: the entries in order, until one fails.\<close>

fun extractAll :: "fs_env \<Rightarrow> string \<Rightarrow> zip_file list \<Rightarrow> fs_op list \<times> error option outcome" where
  "extractAll fe targetPath [] = ([], Returned None)"
| "extractAll fe targetPath (f # fs) =
     (case extractAndWriteFile fe targetPath f of
        (ops, Returned None) \<Rightarrow>
          (case extractAll fe targetPath fs of (ops', r) \<Rightarrow> (ops @ ops', r))
      | (ops, r) \<Rightarrow> (ops, r))"

section \<open>Go's path/filepath on a Unix system\<close>

text \<open>
  \<^verbatim>\<open>strings.Join\<close>: the elements with the separator between them.
\<close>

definition strings_Join :: "string list \<Rightarrow> string \<Rightarrow> string" where
  "strings_Join elems sep =
     (case elems of [] \<Rightarrow> '''' | e # es \<Rightarrow> e @ concat (map (\<lambda>x. sep @ x) es))"

text \<open>
  \<^verbatim>\<open>filepath.Clean\<close> where the separator is the slash. The path is read element by
  element: an empty element and a \<^verbatim>\<open>.\<close> element are dropped; a \<^verbatim>\<open>..\<close> element removes
  the element before it when there is one that is not itself \<^verbatim>\<open>..\<close>, is dropped at the
  root of a rooted path, and is kept otherwise; any other element is kept. The elements
  kept are joined by slashes, after the leading slash of a rooted path, and an empty result
  is \<^verbatim>\<open>.\<close> .
\<close>

definition isRooted :: "string \<Rightarrow> bool" where
  "isRooted path = (path \<noteq> '''' \<and> hd path = CHR ''/'')"

definition cleanElement :: "bool \<Rightarrow> string list \<Rightarrow> string \<Rightarrow> string list" where
  "cleanElement rooted out elem =
     (if elem = '''' \<or> elem = ''.'' then out
      else if elem = ''..'' then
        (if out \<noteq> [] \<and> last out \<noteq> ''..'' then butlast out
         else if rooted then out
         else out @ [''..''])
      else out @ [elem])"

definition cleanElements :: "string \<Rightarrow> string list" where
  "cleanElements path = foldl (cleanElement (isRooted path)) [] (strings_Split path ''/'')"

definition unix_Clean :: "string \<Rightarrow> string" where
  "unix_Clean path =
     (let out = (if isRooted path then ''/'' else '''') @ strings_Join (cleanElements path) ''/''
      in if out = '''' then ''.'' else out)"

text \<open>
  \<^verbatim>\<open>filepath.Join\<close> of two elements: the elements from the first non-empty one on are
  joined by a slash and cleaned; two empty elements give the empty string.
  \<^verbatim>\<open>filepath.Dir\<close>: the path up to and with its last slash, cleaned.
\<close>

definition unix_Join :: "string \<Rightarrow> string \<Rightarrow> string" where
  "unix_Join a b =
     (if a \<noteq> '''' then unix_Clean (strings_Join [a, b] ''/'')
      else if b \<noteq> '''' then unix_Clean b
      else '''')"

definition unix_Dir :: "string \<Rightarrow> string" where
  "unix_Dir path = unix_Clean (rev (dropWhile (\<lambda>c. c \<noteq> CHR ''/'') (rev path)))"

section \<open>cloneStore (main.go, lines 2015-2169)\<close>

text \<open>
  How the loop over the three lists of paths ends: with the error of a version, or with
  one scanner at its end (the flags say which of the sources, targets and zip scanners
  returned false from \<^verbatim>\<open>Scan\<close>).
\<close>

datatype loop_end = LoopReturn error | LoopDone bool bool bool

text \<open>
  \<^verbatim>\<open>cloneOneVersion\<close> (lines 1709-2013) is a parameter of the loop: given the target,
  source and zip paths of a version and the current version index, it returns the new
  current index and an error. The zip scanner is \<open>None\<close> when the pointer is nil.
\<close>

fun cloneLoop ::
  "(string \<Rightarrow> string \<Rightarrow> string \<Rightarrow> version_index option \<Rightarrow> (version_index option \<times> error option) outcome)
     \<Rightarrow> string list \<Rightarrow> string list \<Rightarrow> string list option \<Rightarrow> version_index option \<Rightarrow> loop_end outcome" where
  "cloneLoop clone [] targets zips currentVersionIndex = Returned (LoopDone True False False)"
| "cloneLoop clone (sourceFilePath # sources) [] zips currentVersionIndex =
     Returned (LoopDone False True False)"
| "cloneLoop clone (sourceFilePath # sources) (targetFilePath # targets) (Some []) currentVersionIndex =
     Returned (LoopDone False False True)"
| "cloneLoop clone (sourceFilePath # sources) (targetFilePath # targets) zips currentVersionIndex =
     (let sourceFileZipPath = (case zips of Some (z # zs) \<Rightarrow> z | _ \<Rightarrow> '''') in
      case clone targetFilePath sourceFilePath sourceFileZipPath currentVersionIndex of
        Panicked p \<Rightarrow> Panicked p
      | Exited err \<Rightarrow> Exited err
      | Diverged \<Rightarrow> Diverged
      | Returned (newCurrentVersionIndex, Some err) \<Rightarrow> Returned (LoopReturn err)
      | Returned (newCurrentVersionIndex, None) \<Rightarrow>
          cloneLoop clone sources targets (map_option tl zips) newCurrentVersionIndex)"

text \<open>
  \<^verbatim>\<open>Scanner.Err()\<close> reads a field of the scanner: on a nil pointer that is a panic. A
  scanner that has not reached its end has no error yet.
\<close>

definition scanner_Err :: "(bool \<times> error option) option \<Rightarrow> error option outcome" where
  "scanner_Err sc =
     (case sc of
        None \<Rightarrow> Panicked NilPointerDereference
      | Some (ended, final_err) \<Rightarrow> Returned (if ended then final_err else None))"

text \<open>Lines 2158-2168: the three checks after the loop, each fatal on an error.\<close>

definition finalScannerChecks ::
  "(bool \<times> error option) option \<Rightarrow> (bool \<times> error option) option \<Rightarrow> (bool \<times> error option) option
     \<Rightarrow> error option outcome" where
  "finalScannerChecks sourcesScanner sourcesZipScanner targetsScanner =
     (case scanner_Err sourcesScanner of
        Returned (Some err) \<Rightarrow> Exited err
      | Returned None \<Rightarrow>
          (case scanner_Err sourcesZipScanner of
             Returned (Some err) \<Rightarrow> Exited err
           | Returned None \<Rightarrow>
               (case scanner_Err targetsScanner of
                  Returned (Some err) \<Rightarrow> Exited err
                | Returned None \<Rightarrow> Returned None
                | other \<Rightarrow> other)
           | other \<Rightarrow> other)
      | other \<Rightarrow> other)"

text \<open>
  The function. \<open>cloneOne\<close> is \<^verbatim>\<open>cloneOneVersion\<close> applied to the stores and to the
  command's own arguments, which do not change in the loop.
\<close>

definition cloneStore ::
  "env \<Rightarrow> (block_store \<Rightarrow> block_store \<Rightarrow> block_store \<Rightarrow> block_store \<Rightarrow> string \<Rightarrow> string \<Rightarrow> string
           \<Rightarrow> version_index option \<Rightarrow> (version_index option \<times> error option) outcome)
     \<Rightarrow> string \<Rightarrow> string \<Rightarrow> string \<Rightarrow> string \<Rightarrow> string \<Rightarrow> string \<Rightarrow> u32 \<Rightarrow> u32 \<Rightarrow> error option outcome" where
  "cloneStore e cloneOne sourceStoreURI targetStoreURI localCachePath sourcePaths sourceZipPaths
       targetPaths targetBlockSize maxChunksPerBlock =
     (case createBlockStoreForURI (stores e) sourceStoreURI '''' 8388608 1024 ReadOnly of
        Panicked p \<Rightarrow> Panicked p
      | Exited err \<Rightarrow> Exited err
      | Diverged \<Rightarrow> Diverged
      | Returned (Inl err) \<Rightarrow> Returned (Some err)
      | Returned (Inr sourceRemoteIndexStore) \<Rightarrow>
     let sourceCompressBlockStore =
           (if length localCachePath > 0
            then CompressBlockStore (CacheBlockStore (FSBlockStore (normalizePath localCachePath))
                                       sourceRemoteIndexStore)
            else CompressBlockStore sourceRemoteIndexStore);
         sourceStore = ShareBlockStore (LRUBlockStore sourceCompressBlockStore 32)
     in
     (case createBlockStoreForURI (stores e) targetStoreURI '''' targetBlockSize maxChunksPerBlock ReadWrite of
        Panicked p \<Rightarrow> Panicked p
      | Exited err \<Rightarrow> Exited err
      | Diverged \<Rightarrow> Diverged
      | Returned (Inl err) \<Rightarrow> Returned (Some err)
      | Returned (Inr targetRemoteStore) \<Rightarrow>
     let targetStore = CompressBlockStore targetRemoteStore in
     (case os_Open e sourcePaths of
        Inl err \<Rightarrow> Exited err
      | Inr (sourceLines, sourcesFinalErr) \<Rightarrow>
     (case (if sourceZipPaths \<noteq> ''''
            then (case os_Open e sourceZipPaths of
                    Inl err \<Rightarrow> Inl err
                  | Inr z \<Rightarrow> Inr (Some z))
            else Inr None) of
        Inl err \<Rightarrow> Exited err
      | Inr sourcesZipScanner \<Rightarrow>
     (case os_Open e targetPaths of
        Inl err \<Rightarrow> Exited err
      | Inr (targetLines, targetsFinalErr) \<Rightarrow>
     (case cloneLoop (cloneOne sourceStore targetStore sourceRemoteIndexStore targetRemoteStore)
             sourceLines targetLines (map_option fst sourcesZipScanner) None of
        Panicked p \<Rightarrow> Panicked p
      | Exited err \<Rightarrow> Exited err
      | Diverged \<Rightarrow> Diverged
      | Returned (LoopReturn err) \<Rightarrow> Returned (Some err)
      | Returned (LoopDone sourcesEnded targetsEnded zipsEnded) \<Rightarrow>
          finalScannerChecks
            (Some (sourcesEnded, sourcesFinalErr))
            (map_option (\<lambda>z. (zipsEnded, snd z)) sourcesZipScanner)
            (Some (targetsEnded, targetsFinalErr))))))))"

section \<open>pruneStore (main.go, lines 2171-2398)\<close>

text \<open>
  What one goroutine of a batch does with one version (lines 2265-2336) is a chain of
  steps; a step either goes on with a value or sends an error (possibly nil) on the
  channel of the batch and returns.
\<close>

datatype 'a step = Continue 'a | Send "error option"

text \<open>
  Lines 2278-2292: the store index of the version's own file. It is read only when a path
  is given and the indexes are not being written. \<open>None\<close> is an index that is not valid:
  none was read, or the one read did not validate and was disposed. When the file is read
  but cannot be parsed, the variable \<^verbatim>\<open>err\<close> that is sent is the nil error of the read.
\<close>

definition readVersionLocalStoreIndex ::
  "env \<Rightarrow> bool \<Rightarrow> string \<Rightarrow> version_index \<Rightarrow> store_index option step" where
  "readVersionLocalStoreIndex e writeVersionLocalStoreIndex versionLocalStoreIndexFilePath sourceVersionIndex =
     (if versionLocalStoreIndexFilePath \<noteq> '''' \<and> \<not> writeVersionLocalStoreIndex then
        (case ReadFromURI e versionLocalStoreIndexFilePath of
           Inl err \<Rightarrow> Continue None
         | Inr sbuffer \<Rightarrow>
             (case ReadStoreIndexFromBuffer e sbuffer of
                (existingStoreIndex, errno) \<Rightarrow>
                  if errno \<noteq> 0 then Send None
                  else if ValidateStore e existingStoreIndex sourceVersionIndex \<noteq> 0 then Continue None
                  else Continue (Some existingStoreIndex)))
      else Continue None)"

text \<open>
  Lines 2293-2312: without a valid index so far, the remote store is asked for the
  version's chunk hashes and the answer is validated. When the query fails, the variable
  \<^verbatim>\<open>err\<close> that is sent is the nil error of reading the version index.
\<close>

definition queryRemoteStore ::
  "env \<Rightarrow> block_store \<Rightarrow> string \<Rightarrow> bool \<Rightarrow> string \<Rightarrow> version_index \<Rightarrow> store_index option
     \<Rightarrow> call list \<times> store_index step" where
  "queryRemoteStore e remoteStore storageURI dryRun sourceFilePath sourceVersionIndex existing =
     (case existing of
        Some existingStoreIndex \<Rightarrow> ([], Continue existingStoreIndex)
      | None \<Rightarrow>
          let c = [GetExistingStoreIndexCall remoteStore (ChunkHashes sourceVersionIndex) 0] in
          (case GetExistingStoreIndexSync e remoteStore (ChunkHashes sourceVersionIndex) 0 of
             (existingStoreIndex, errno) \<Rightarrow>
               if errno \<noteq> 0 then (c, Send None)
               else
                 let errno = ValidateStore e existingStoreIndex sourceVersionIndex in
                 if errno \<noteq> 0 then
                   (if dryRun then (c @ [LogMissingData storageURI sourceFilePath], Send None)
                    else (c, Send (Some (ErrnoError errno ''Data is missing in store''))))
                 else (c, Continue existingStoreIndex)))"

text \<open>
  Lines 2316-2335: the index is written to the version's own file when a path is given,
  the indexes are being written and the run is not a dry run.
\<close>

definition writeVersionLocalStoreIndexFile ::
  "env \<Rightarrow> bool \<Rightarrow> bool \<Rightarrow> string \<Rightarrow> store_index \<Rightarrow> call list \<times> error option" where
  "writeVersionLocalStoreIndexFile e writeVersionLocalStoreIndex dryRun versionLocalStoreIndexFilePath
       existingStoreIndex =
     (if versionLocalStoreIndexFilePath \<noteq> '''' \<and> writeVersionLocalStoreIndex \<and> \<not> dryRun then
        (case WriteStoreIndexToBuffer e existingStoreIndex of
           (sbuffer, errno) \<Rightarrow>
             if errno \<noteq> 0 then ([], None)
             else ([WriteToURICall versionLocalStoreIndexFilePath sbuffer],
                   WriteToURI_err e versionLocalStoreIndexFilePath sbuffer))
      else ([], None))"

text \<open>
  The goroutine: the calls it makes, the block hashes it stores for the version, and the
  error it sends. When the version index is read but cannot be parsed, the \<^verbatim>\<open>err\<close>
  that is sent is the nil error of the read.
\<close>

definition processVersion ::
  "env \<Rightarrow> block_store \<Rightarrow> string \<Rightarrow> bool \<Rightarrow> bool \<Rightarrow> string \<Rightarrow> string
     \<Rightarrow> call list \<times> u64 list \<times> error option" where
  "processVersion e remoteStore storageURI writeVersionLocalStoreIndex dryRun sourceFilePath
       versionLocalStoreIndexFilePath =
     (case ReadFromURI e sourceFilePath of
        Inl err \<Rightarrow> ([], [], Some err)
      | Inr vbuffer \<Rightarrow>
          (case ReadVersionIndexFromBuffer e vbuffer of
             (sourceVersionIndex, errno) \<Rightarrow>
               if errno \<noteq> 0 then ([], [], None)
               else
                 (case readVersionLocalStoreIndex e writeVersionLocalStoreIndex
                         versionLocalStoreIndexFilePath sourceVersionIndex of
                    Send err \<Rightarrow> ([], [], err)
                  | Continue existing \<Rightarrow>
                      (case queryRemoteStore e remoteStore storageURI dryRun sourceFilePath
                              sourceVersionIndex existing of
                         (c1, Send err) \<Rightarrow> (c1, [], err)
                       | (c1, Continue existingStoreIndex) \<Rightarrow>
                           (case writeVersionLocalStoreIndexFile e writeVersionLocalStoreIndex dryRun
                                   versionLocalStoreIndexFilePath existingStoreIndex of
                              (c2, err) \<Rightarrow> (c1 @ c2, BlockHashes existingStoreIndex, err))))))"

text \<open>
  \<open>usedBlocks\<close>, a Go map from block hash to a count, as the list of its keys with their
  counts; \<open>bump\<close> is \<^verbatim>\<open>usedBlocks[h] += 1\<close>.
\<close>

fun bump :: "u64 \<Rightarrow> (u64 \<times> u32) list \<Rightarrow> (u64 \<times> u32) list" where
  "bump h [] = [(h, 1)]"
| "bump h ((k, n) # kvs) = (if k = h then (k, n + 1) # kvs else (k, n) # bump h kvs)"

text \<open>
  Lines 2252-2353: the versions in batches of \<open>batchCount\<close>. All goroutines of a batch
  run; the batch fails with a non-nil error sent by one of them (the model takes the first
  in the order of the batch; the channel gives them in the order they finish). Only a batch
  without an error adds its block hashes. With a batch count of zero and versions left the
  loop would never advance.
\<close>

definition runBatch ::
  "env \<Rightarrow> block_store \<Rightarrow> string \<Rightarrow> bool \<Rightarrow> bool \<Rightarrow> (string \<times> string) list
     \<Rightarrow> (call list \<times> u64 list \<times> error option) list" where
  "runBatch e remoteStore storageURI writeVersionLocalStoreIndex dryRun batch =
     map (\<lambda>(sourceFilePath, versionLocalStoreIndexFilePath).
            processVersion e remoteStore storageURI writeVersionLocalStoreIndex dryRun
              sourceFilePath versionLocalStoreIndexFilePath)
         batch"

function scanBatches ::
  "env \<Rightarrow> block_store \<Rightarrow> string \<Rightarrow> bool \<Rightarrow> bool \<Rightarrow> nat \<Rightarrow> (string \<times> string) list \<Rightarrow> (u64 \<times> u32) list
     \<Rightarrow> call list \<times> (error + (u64 \<times> u32) list) outcome" where
  "scanBatches e remoteStore storageURI writeVersionLocalStoreIndex dryRun batchCount versions usedBlocks =
     (if versions = [] then ([], Returned (Inr usedBlocks))
      else if batchCount = 0 then ([], Diverged)
      else
        let results = runBatch e remoteStore storageURI writeVersionLocalStoreIndex dryRun
                        (take batchCount versions);
            calls = concat (map fst results);
            batchErrors = List.map_filter (\<lambda>r. snd (snd r)) results
        in
        (case batchErrors of
           batchError # others \<Rightarrow> (calls, Returned (Inl batchError))
         | [] \<Rightarrow>
             (case scanBatches e remoteStore storageURI writeVersionLocalStoreIndex dryRun batchCount
                     (drop batchCount versions)
                     (fold bump (concat (map (\<lambda>r. fst (snd r)) results)) usedBlocks) of
                (calls', r) \<Rightarrow> (calls @ calls', r))))"
  by pat_completeness auto
termination
  by (relation "measure (\<lambda>(e, remoteStore, storageURI, w, d, batchCount, versions, usedBlocks). length versions)")
     auto

declare scanBatches.simps [simp del]

text \<open>
  Lines 2216-2237: the list of the versions' own store index files, when a list is given;
  it must be as long as the list of versions.
\<close>

definition readVersionLocalStoreIndexPaths ::
  "env \<Rightarrow> string \<Rightarrow> string \<Rightarrow> string list \<Rightarrow> (error + string list) outcome" where
  "readVersionLocalStoreIndexPaths e sourcePaths versionLocalStoreIndexesPath sourceFilePaths =
     (if strings_TrimSpace e versionLocalStoreIndexesPath \<noteq> '''' then
        (case os_Open e versionLocalStoreIndexesPath of
           Inl err \<Rightarrow> Exited err
         | Inr (versionLocalStoreIndexFilePaths, scanErr) \<Rightarrow>
             if length sourceFilePaths \<noteq> length versionLocalStoreIndexFilePaths
             then Returned (Inl (FileCountMismatch sourcePaths versionLocalStoreIndexesPath))
             else Returned (Inr versionLocalStoreIndexFilePaths))
      else Returned (Inr []))"

text \<open>Lines 2258-2264: each version with the path of its own store index, or the empty path.\<close>

definition pairVersions :: "string list \<Rightarrow> string list \<Rightarrow> (string \<times> string) list" where
  "pairVersions sourceFilePaths versionLocalStoreIndexFilePaths =
     (if length versionLocalStoreIndexFilePaths > 0
      then zip sourceFilePaths versionLocalStoreIndexFilePaths
      else map (\<lambda>sourceFilePath. (sourceFilePath, '''')) sourceFilePaths)"

text \<open>
  Lines 2359-2397: after the scan. A dry run prints the number of blocks in use and
  returns; otherwise the blocks not in use are pruned and the store is flushed.
\<close>

definition pruneOrReport ::
  "env \<Rightarrow> block_store \<Rightarrow> bool \<Rightarrow> (u64 \<times> u32) list \<Rightarrow> call list \<times> error option outcome" where
  "pruneOrReport e remoteStore dryRun usedBlocks =
     (if dryRun then ([PrintWouldKeep (length usedBlocks)], Returned None)
      else
        let blockHashes = map fst usedBlocks;
            c1 = [PruneBlocksCall remoteStore blockHashes]
        in
        (case PruneBlocksSync e remoteStore blockHashes of
           (prunedBlockCount, errno) \<Rightarrow>
             if errno \<noteq> 0
             then (c1, Returned (Some (ErrnoError errno ''store.PruneBlocks() failed'')))
             else
               let c2 = c1 @ [PrintPruned prunedBlockCount, FlushCall [remoteStore]];
                   errno = FlushStoresSync_errno e [remoteStore]
               in if errno \<noteq> 0
                  then (c2, Returned (Some (ErrnoError errno ''longtailutils.FlushStore: Failed'')))
                  else (c2, Returned None)))"

definition pruneStore ::
  "env \<Rightarrow> string \<Rightarrow> string \<Rightarrow> string \<Rightarrow> bool \<Rightarrow> bool \<Rightarrow> call list \<times> error option outcome" where
  "pruneStore e storageURI sourcePaths versionLocalStoreIndexesPath writeVersionLocalStoreIndex dryRun =
     (let storeMode = (if \<not> dryRun then ReadWrite else ReadOnly);
          c0 = [CreateBlockStoreCall storageURI '''' storeMode]
      in
      case createBlockStoreForURI (stores e) storageURI '''' 8388608 1024 storeMode of
        Panicked p \<Rightarrow> (c0, Panicked p)
      | Exited err \<Rightarrow> (c0, Exited err)
      | Diverged \<Rightarrow> (c0, Diverged)
      | Returned (Inl err) \<Rightarrow> (c0, Returned (Some err))
      | Returned (Inr remoteStore) \<Rightarrow>
     (case os_Open e sourcePaths of
        Inl err \<Rightarrow> (c0, Exited err)
      | Inr (sourceFilePaths, scanErr) \<Rightarrow>
     (case readVersionLocalStoreIndexPaths e sourcePaths versionLocalStoreIndexesPath sourceFilePaths of
        Panicked p \<Rightarrow> (c0, Panicked p)
      | Exited err \<Rightarrow> (c0, Exited err)
      | Diverged \<Rightarrow> (c0, Diverged)
      | Returned (Inl err) \<Rightarrow> (c0, Returned (Some err))
      | Returned (Inr versionLocalStoreIndexFilePaths) \<Rightarrow>
     (case scanBatches e remoteStore storageURI writeVersionLocalStoreIndex dryRun
             (min (numWorkerCount (stores e)) (length sourceFilePaths))
             (pairVersions sourceFilePaths versionLocalStoreIndexFilePaths) [] of
        (c1, Panicked p) \<Rightarrow> (c0 @ c1, Panicked p)
      | (c1, Exited err) \<Rightarrow> (c0 @ c1, Exited err)
      | (c1, Diverged) \<Rightarrow> (c0 @ c1, Diverged)
      | (c1, Returned (Inl batchError)) \<Rightarrow> (c0 @ c1, Returned (Some batchError))
      | (c1, Returned (Inr usedBlocks)) \<Rightarrow>
          (case pruneOrReport e remoteStore dryRun usedBlocks of
             (c2, r) \<Rightarrow> (c0 @ c1 @ c2, r))))))"

section \<open>The words of the specification, for comparison with the code\<close>

text \<open>
  The last slash-separated segment of a path, and a name truncated at its first dot, as
  the specification of the target folder puts them.
\<close>

definition lastSegment :: "string \<Rightarrow> string" where
  "lastSegment s = rev (takeWhile (\<lambda>c. c \<noteq> CHR ''/'') (rev s))"

definition upToFirstDot :: "string \<Rightarrow> string" where
  "upToFirstDot s = takeWhile (\<lambda>c. c \<noteq> CHR ''.'') s"

text \<open>
  The source's entry for a path (the last asset of the source index with that path), and
  a re-indexed asset that agrees with it: present, same size, same content hash and, when
  permissions are retained, same permissions.
\<close>

definition sourceEntry :: "version_index \<Rightarrow> string \<Rightarrow> asset option" where
  "sourceEntry S p = find (\<lambda>a. assetPath a = p) (rev (Assets S))"

definition agreesWithSource :: "bool \<Rightarrow> version_index \<Rightarrow> asset \<Rightarrow> bool" where
  "agreesWithSource retainPermissions S v =
     (case sourceEntry S (assetPath v) of
        None \<Rightarrow> False
      | Some s \<Rightarrow> assetSize s = assetSize v \<and> assetHash s = assetHash v
                 \<and> (\<not> retainPermissions \<or> assetPermissions s = assetPermissions v))"

section \<open>An example world\<close>

text \<open>
  A small world in which the theorems are tried: \<^verbatim>\<open>url.Parse\<close> on a few URIs (a bare
  path has no scheme; \<^verbatim>\<open>file://\<close> has the scheme \<^verbatim>\<open>file\<close> and an empty path), one version
  \<^verbatim>\<open>store/v1.lvi\<close> with one asset of one chunk, its own store index
  \<^verbatim>\<open>store/v1.lsi\<close> naming block 101, and a remote store that answers with the blocks 101
  and 102. The target folder is empty before the change and holds the asset after it.
\<close>

definition example_index :: version_index where
  "example_index =
     \<lparr>HashIdentifier = 3, TargetChunkSize = 32768,
      Assets = [\<lparr>assetPath = ''a.txt'', assetSize = 5, assetHash = 11, assetPermissions = 420,
                 assetChunkCount = 1, assetChunkIndexStart = 0\<rparr>],
      ChunkHashes = [21], AssetChunkIndexes = [0]\<rparr>"

definition example_stores :: store_env where
  "example_stores =
     \<lparr>url_Parse = (\<lambda>uri.
        if uri = ''file://'' then Inr \<lparr>Scheme = ''file'', Host = '''', Path = ''''\<rparr>
        else if uri = ''file:///tmp/store'' then Inr \<lparr>Scheme = ''file'', Host = '''', Path = ''/tmp/store''\<rparr>
        else if uri = ''s3://bucket/store'' then Inr \<lparr>Scheme = ''s3'', Host = ''bucket'', Path = ''/store''\<rparr>
        else if uri = ''gs://bucket/store'' then Inr \<lparr>Scheme = ''gs'', Host = ''bucket'', Path = ''/store''\<rparr>
        else if uri = ''abfs://account/store'' then Inr \<lparr>Scheme = ''abfs'', Host = ''account'', Path = ''/store''\<rparr>
        else Inr \<lparr>Scheme = '''', Host = '''', Path = uri\<rparr>),
      NewGCSBlobStore_err = (\<lambda>u. None),
      NewRemoteBlockStore_err = (\<lambda>b p a. None),
      numWorkerCount = 2\<rparr>"

text \<open>
  \<^verbatim>\<open>strings.TrimSpace\<close> for the example world, on strings as the bytes of UTF-8: the
  white space of \<^verbatim>\<open>unicode.IsSpace\<close> is the six characters of ASCII (tab, line feed,
  vertical tab, form feed, carriage return, space), U+0085 and U+00A0 (two bytes each), and
  U+1680, U+2000 to U+200A, U+2028, U+2029, U+202F, U+205F and U+3000 (three bytes each).
  White space is trimmed from the front and, read backwards, from the end; bytes that do
  not encode one of these characters stop the trimming.
\<close>

definition isSpace1 :: "char \<Rightarrow> bool" where
  "isSpace1 a = (a \<in> set [CHR 0x09, CHR 0x0A, CHR 0x0B, CHR 0x0C, CHR 0x0D, CHR 0x20])"

definition isSpace2 :: "char \<Rightarrow> char \<Rightarrow> bool" where
  "isSpace2 a b = (a = CHR 0xC2 \<and> (b = CHR 0x85 \<or> b = CHR 0xA0))"

definition isSpace3 :: "char \<Rightarrow> char \<Rightarrow> char \<Rightarrow> bool" where
  "isSpace3 a b c =
     (a = CHR 0xE1 \<and> b = CHR 0x9A \<and> c = CHR 0x80
      \<or> a = CHR 0xE2 \<and> b = CHR 0x80
          \<and> c \<in> set [CHR 0x80, CHR 0x81, CHR 0x82, CHR 0x83, CHR 0x84, CHR 0x85, CHR 0x86,
                       CHR 0x87, CHR 0x88, CHR 0x89, CHR 0x8A, CHR 0xA8, CHR 0xA9, CHR 0xAF]
      \<or> a = CHR 0xE2 \<and> b = CHR 0x81 \<and> c = CHR 0x9F
      \<or> a = CHR 0xE3 \<and> b = CHR 0x80 \<and> c = CHR 0x80)"

fun trimLeft :: "string \<Rightarrow> string" where
  "trimLeft (a # b # c # s) =
     (if isSpace1 a then trimLeft (b # c # s)
      else if isSpace2 a b then trimLeft (c # s)
      else if isSpace3 a b c then trimLeft s
      else a # b # c # s)"
| "trimLeft [a, b] =
     (if isSpace1 a then trimLeft [b]
      else if isSpace2 a b then []
      else [a, b])"
| "trimLeft [a] = (if isSpace1 a then [] else [a])"
| "trimLeft [] = []"

fun trimRightReversed :: "string \<Rightarrow> string" where
  "trimRightReversed (c # b # a # s) =
     (if isSpace1 c then trimRightReversed (b # a # s)
      else if isSpace2 b c then trimRightReversed (a # s)
      else if isSpace3 a b c then trimRightReversed s
      else c # b # a # s)"
| "trimRightReversed [c, b] =
     (if isSpace1 c then trimRightReversed [b]
      else if isSpace2 b c then []
      else [c, b])"
| "trimRightReversed [c] = (if isSpace1 c then [] else [c])"
| "trimRightReversed [] = []"

definition utf8_TrimSpace :: "string \<Rightarrow> string" where
  "utf8_TrimSpace s = rev (trimRightReversed (rev (trimLeft s)))"

definition example_env :: env where
  "example_env =
     \<lparr>stores = example_stores,
      MakeRegexPathFilter_err = (\<lambda>i x. None),
      ReadFromURI = (\<lambda>p. if p = ''store/v1.lvi'' then Inr ''lvi''
                          else if p = ''store/v1.lsi'' then Inr ''lsi''
                          else Inl (LibraryError ''not found'')),
      WriteToURI_err = (\<lambda>p b. None),
      ReadVersionIndexFromBuffer = (\<lambda>b. (example_index, 0)),
      ReadStoreIndexFromBuffer = (\<lambda>b. (\<lparr>BlockHashes = [101], StoreChunkHashes = [21]\<rparr>, 0)),
      WriteStoreIndexToBuffer = (\<lambda>s. (''lsi'', 0)),
      GetFilesRecursively = (\<lambda>ph p. (case ph of BeforeChange \<Rightarrow> [] | AfterChange \<Rightarrow> [''a.txt''], 0)),
      GetHashAPI_errno = (\<lambda>h. 0),
      CreateVersionIndex = (\<lambda>ph h p fi ct tcs.
         (case ph of BeforeChange \<Rightarrow> example_index\<lparr>Assets := [], ChunkHashes := [], AssetChunkIndexes := []\<rparr>
                   | AfterChange \<Rightarrow> example_index, 0)),
      CreateVersionDiff = (\<lambda>h t s. (VersionDiff [''a.txt''] [] [], 0)),
      GetRequiredChunkHashes = (\<lambda>s d. ([21], 0)),
      GetExistingStoreIndexSync = (\<lambda>st hs p. (\<lparr>BlockHashes = [101, 102], StoreChunkHashes = hs\<rparr>, 0)),
      ValidateStore = (\<lambda>si vi. if set (ChunkHashes vi) \<subseteq> set (StoreChunkHashes si) then 0 else 2),
      ChangeVersion_errno = (\<lambda>st h si t s d p r. 0),
      FlushStoresSync_errno = (\<lambda>sts. 0),
      PruneBlocksSync = (\<lambda>st hs. (0, 0)),
      os_Open = (\<lambda>p. if p = ''sources.txt'' then Inr ([''store/v1.lvi''], None)
                      else if p = ''indexes.txt'' then Inr ([''store/v1.lsi''], None)
                      else if p = ''targets.txt'' then Inr ([''target/v1.lvi''], None)
                      else Inl (LibraryError ''no such file'')),
      strings_TrimSpace = utf8_TrimSpace\<rparr>"

text \<open>
  A Unix file system for the zip fallback, in which every file operation succeeds, and an
  entry of an archive that opens and closes without error.
\<close>

definition unix_fs :: fs_env where
  "unix_fs =
     \<lparr>filepath_Join = unix_Join,
      filepath_Clean = unix_Clean,
      filepath_Dir = unix_Dir,
      os_PathSeparator = CHR ''/'',
      os_OpenFile_err = (\<lambda>p. None),
      io_Copy_err = (\<lambda>p c. None),
      file_Close_err = (\<lambda>p. None)\<rparr>"

definition example_entry :: "string \<Rightarrow> zip_file" where
  "example_entry name =
     \<lparr>zip_Name = name, zip_IsDir = False, zip_Mode = 420, zip_Open = Inr ''content'',
      zip_Close_err = None\<rparr>"

text \<open>
  For the zip fallback: a path lies strictly inside a directory when both are rooted or
  both are not and, element by element after cleaning, the path is the directory followed
  by at least one more element, none of which is \<^verbatim>\<open>..\<close> (the path does not climb out
  again).
\<close>

definition strictlyInside :: "string \<Rightarrow> string \<Rightarrow> bool" where
  "strictlyInside dir path =
     (isRooted dir = isRooted path
      \<and> length (cleanElements dir) < length (cleanElements path)
      \<and> take (length (cleanElements dir)) (cleanElements path) = cleanElements dir
      \<and> ''..'' \<notin> set (drop (length (cleanElements dir)) (cleanElements path)))"

text \<open>
  The index that the example world builds for the target folder before the change: that of
  an empty folder.
\<close>

definition example_built_index :: version_index where
  "example_built_index = example_index\<lparr>Assets := [], ChunkHashes := [], AssetChunkIndexes := []\<rparr>"

text \<open>
  The example world with a target index file \<^verbatim>\<open>target.lvi\<close>, whose index was made with
  hash identifier 99 and target chunk size 1.
\<close>

definition example_target_index :: version_index where
  "example_target_index =
     \<lparr>HashIdentifier = 99, TargetChunkSize = 1, Assets = [], ChunkHashes = [],
      AssetChunkIndexes = []\<rparr>"

definition example_env_target_index :: env where
  "example_env_target_index =
     example_env
       \<lparr>ReadFromURI := (\<lambda>p. if p = ''target.lvi'' then Inr ''tvi'' else ReadFromURI example_env p),
        ReadVersionIndexFromBuffer :=
          (\<lambda>b. if b = ''tvi'' then (example_target_index, 0) else (example_index, 0))\<rparr>"

text \<open>
  For prune: the store of a dry run is a remote block store made with the access type
  \<^verbatim>\<open>ReadOnly\<close>, or a block store of the file system, whose constructor takes no access
  type. A call of a dry run changes nothing in the store: the store is opened with
  \<^verbatim>\<open>ReadOnly\<close>, the store that is asked for an index is a store of a dry run, and
  nothing is pruned, written or flushed. The blocks of one version are those its goroutine
  stores.
\<close>

definition dryRunStore :: "block_store \<Rightarrow> bool" where
  "dryRunStore store =
     (case store of
        RemoteBlockStore blobStore indexPath workerCount accessType \<Rightarrow> accessType = ReadOnly
      | FSBlockStore path \<Rightarrow> True
      | _ \<Rightarrow> False)"

definition dryRunCall :: "call \<Rightarrow> bool" where
  "dryRunCall c =
     (case c of
        CreateBlockStoreCall uri indexPath accessType \<Rightarrow> accessType = ReadOnly
      | GetExistingStoreIndexCall store chunkHashes minBlockUsagePercent \<Rightarrow> dryRunStore store
      | PruneBlocksCall store blockHashes \<Rightarrow> False
      | WriteToURICall path buffer \<Rightarrow> False
      | FlushCall storeList \<Rightarrow> False
      | PrintPruned n \<Rightarrow> False
      | _ \<Rightarrow> True)"

definition versionBlocks ::
  "env \<Rightarrow> block_store \<Rightarrow> string \<Rightarrow> bool \<Rightarrow> bool \<Rightarrow> string \<times> string \<Rightarrow> u64 set" where
  "versionBlocks e remoteStore storageURI writeVersionLocalStoreIndex dryRun version =
     set (fst (snd (processVersion e remoteStore storageURI writeVersionLocalStoreIndex dryRun
                      (fst version) (snd version))))"

text \<open>
  The example world with a store index file \<^verbatim>\<open>store/v1.lsi\<close> that is read but cannot be
  parsed (errno 22), and the example world with a remote store whose index cannot be got
  (errno 5).
\<close>

definition example_env_unparsable :: env where
  "example_env_unparsable =
     example_env\<lparr>ReadStoreIndexFromBuffer :=
       (\<lambda>b. (\<lparr>BlockHashes = [], StoreChunkHashes = []\<rparr>, 22))\<rparr>"

definition example_env_unreachable :: env where
  "example_env_unreachable =
     example_env\<lparr>GetExistingStoreIndexSync :=
       (\<lambda>st hs p. (\<lparr>BlockHashes = [], StoreChunkHashes = []\<rparr>, 5))\<rparr>"

text \<open>
  For the asset fragmentation: the block in which each chunk of an asset resides, in the
  order of the asset's chunks (a chunk that the lookup does not know counts as block 0,
  as in the code); the number of fragments of an asset, that is of maximal runs of
  consecutive chunks in the same block; and the statistic computed from a number of
  fragments and a number of assets in unsigned 64-bit arithmetic, cut to 32 bits.
\<close>

definition assetBlocks :: "(u64 \<rightharpoonup> u64) \<Rightarrow> version_index \<Rightarrow> asset \<Rightarrow> u64 list" where
  "assetBlocks blockLookup v a =
     map (\<lambda>c. map_get blockLookup (ChunkHashes v ! unat (AssetChunkIndexes v ! c))) (chunkRange a)"

definition fragments :: "u64 list \<Rightarrow> nat" where
  "fragments blocks = length (remdups_adj blocks)"

definition totalFragments :: "(u64 \<rightharpoonup> u64) \<Rightarrow> version_index \<Rightarrow> nat" where
  "totalFragments blockLookup v = (\<Sum>a \<leftarrow> Assets v. fragments (assetBlocks blockLookup v a))"

definition fragmentationOf :: "nat \<Rightarrow> nat \<Rightarrow> u32" where
  "fragmentationOf nFragments nAssets =
     ucast ((100 * (of_nat nFragments :: u64)) div (of_nat nAssets :: u64) - 100)"

text \<open>
  What the loop counts for one asset, as a function of the asset's blocks: a block is
  counted when it differs from the one before it, and the first block is compared with
  the initial value of \<open>lastBlockIndex\<close>, all bits set.
\<close>

fun runsAfter :: "u64 \<Rightarrow> u64 list \<Rightarrow> nat" where
  "runsAfter lastBlock [] = 0"
| "runsAfter lastBlock (b # bs) =
     (if b \<noteq> lastBlock then Suc (runsAfter b bs) else runsAfter lastBlock bs)"

definition countedFragments :: "u64 list \<Rightarrow> nat" where
  "countedFragments blocks = runsAfter (NOT 0) blocks"

text \<open>
  A version index whose chunk indexes are in range (invariant 2 of the data model) and
  whose asset count fits its 32-bit field.
\<close>

definition wellFormed :: "version_index \<Rightarrow> bool" where
  "wellFormed v =
     (length (Assets v) < 2 ^ 32
      \<and> list_all (\<lambda>a. list_all (\<lambda>c. c < length (AssetChunkIndexes v)
                                      \<and> unat (AssetChunkIndexes v ! c) < length (ChunkHashes v))
                              (chunkRange a))
                  (Assets v))"

section \<open>Verification\<close>

subsection \<open>Facts about strings.Replace\<close>


lemma strings_Replace_Nil: "old \<noteq> [] \<Longrightarrow> strings_Replace [] old new = []"
  by (simp add: strings_Replace.simps)

lemma strings_Replace_match:
  "old \<noteq> [] \<Longrightarrow> prefix old (x # xs) \<Longrightarrow>
   strings_Replace (x # xs) old new = new @ strings_Replace (drop (length old) (x # xs)) old new"
  by (subst strings_Replace.simps) simp

lemma strings_Replace_skip:
  "old \<noteq> [] \<Longrightarrow> \<not> prefix old (x # xs) \<Longrightarrow>
   strings_Replace (x # xs) old new = x # strings_Replace xs old new"
  by (subst strings_Replace.simps) simp

lemma strings_Replace_absent:
  "old \<noteq> [] \<Longrightarrow> \<not> sublist old s \<Longrightarrow> strings_Replace s old new = s"
proof (induction s)
  case Nil
  then show ?case by (simp add: strings_Replace_Nil)
next
  case (Cons x xs)
  from Cons.prems have np: "\<not> prefix old (x # xs)"
    using prefix_imp_sublist by blast
  from Cons.prems have "\<not> sublist old xs"
    by (simp add: sublist_Cons_right)
  with Cons.IH Cons.prems(1) have "strings_Replace xs old new = xs"
    by simp
  with np Cons.prems(1) show ?case
    by (simp add: strings_Replace_skip)
qed

lemma strings_Replace_shrinks:
  "old \<noteq> [] \<Longrightarrow> length new \<le> length old \<Longrightarrow> length (strings_Replace s old new) \<le> length s"
proof (induction s old new rule: strings_Replace.induct)
  case (1 s old new)
  show ?case
  proof (cases s)
    case Nil
    with "1.prems" show ?thesis by (simp add: strings_Replace_Nil)
  next
    case (Cons x xs)
    show ?thesis
    proof (cases "prefix old s")
      case True
      then have "length old \<le> length s" by (rule prefix_length_le)
      moreover have "length (strings_Replace (drop (length old) s) old new) \<le> length s - length old"
        using "1.IH"(1) "1.prems" Cons True by simp
      ultimately show ?thesis
        using "1.prems" Cons True by (simp add: strings_Replace_match)
    next
      case np: False
      have "length (strings_Replace (tl s) old new) \<le> length s - 1"
        using "1.IH"(2) "1.prems" Cons np by simp
      then show ?thesis
        using "1.prems" Cons np by (simp add: strings_Replace_skip)
    qed
  qed
qed

lemma strings_Replace_present:
  "old \<noteq> [] \<Longrightarrow> length new < length old \<Longrightarrow> sublist old s \<Longrightarrow>
   length (strings_Replace s old new) < length s"
proof (induction s)
  case Nil
  then show ?case by simp
next
  case (Cons x xs)
  show ?case
  proof (cases "prefix old (x # xs)")
    case True
    then have "length old \<le> length (x # xs)" by (rule prefix_length_le)
    moreover have "length (strings_Replace (drop (length old) (x # xs)) old new)
        \<le> length (x # xs) - length old"
      using strings_Replace_shrinks [of old new "drop (length old) (x # xs)"] Cons.prems by simp
    ultimately show ?thesis
      using Cons.prems True by (simp add: strings_Replace_match)
  next
    case np: False
    with Cons.prems(3) have "sublist old xs"
      by (simp add: sublist_Cons_right)
    then have "length (strings_Replace xs old new) < length xs"
      using Cons.IH Cons.prems by simp
    then show ?thesis
      using Cons.prems np by (simp add: strings_Replace_skip)
  qed
qed

lemma strings_Replace_char_gone:
  "c \<notin> set new \<Longrightarrow> c \<notin> set (strings_Replace s [c] new)"
proof (induction s)
  case Nil
  then show ?case by (simp add: strings_Replace_Nil)
next
  case (Cons x xs)
  then show ?case
    by (cases "x = c") (simp_all add: strings_Replace_match strings_Replace_skip)
qed

lemma sublist_needs_char: "sublist old s \<Longrightarrow> c \<in> set old \<Longrightarrow> c \<in> set s"
  by (auto simp: sublist_def)

lemma set_strings_Replace:
  "old \<noteq> [] \<Longrightarrow> set (strings_Replace s old new) \<subseteq> set s \<union> set new"
proof (induction s old new rule: strings_Replace.induct)
  case (1 s old new)
  show ?case
  proof (cases s)
    case Nil
    with "1.prems" show ?thesis by (simp add: strings_Replace_Nil)
  next
    case (Cons x xs)
    show ?thesis
    proof (cases "prefix old s")
      case True
      have "set (strings_Replace (drop (length old) s) old new) \<subseteq> set (drop (length old) s) \<union> set new"
        using "1.IH"(1) "1.prems" Cons True by simp
      moreover have "set (drop (length old) s) \<subseteq> set s"
        by (rule set_drop_subset)
      ultimately show ?thesis
        using "1.prems" Cons True by (auto simp: strings_Replace_match)
    next
      case np: False
      have "set (strings_Replace (tl s) old new) \<subseteq> set (tl s) \<union> set new"
        using "1.IH"(2) "1.prems" Cons np by simp
      then show ?thesis
        using "1.prems" Cons np by (auto simp: strings_Replace_skip)
    qed
  qed
qed

lemma normalizePath_no_backslash: "backslash \<notin> set (normalizePath p)"
  unfolding normalizePath_def Let_def
  by (rule strings_Replace_char_gone) (simp add: backslash_def)

lemma normalizePath_backslash_free:
  assumes "backslash \<notin> set q"
  shows "normalizePath q = strings_Replace q ''//'' ''/''"
proof -
  have "set (strings_Replace q ''//'' ''/'') \<subseteq> set q \<union> set ''/''"
    by (rule set_strings_Replace) simp
  with assms have nb: "backslash \<notin> set (strings_Replace q ''//'' ''/'')"
    by (auto simp: backslash_def)
  then have "\<not> sublist [backslash, backslash] (strings_Replace q ''//'' ''/'')"
    and "\<not> sublist [backslash] (strings_Replace q ''//'' ''/'')"
    using sublist_needs_char [of _ _ backslash] by fastforce+
  then show ?thesis
    by (simp add: normalizePath_def strings_Replace_absent)
qed

subsection \<open>Claim C10: normalizePath and idempotence\<close>

text \<open>
  C10 (as amended). The result of normalizePath never contains a backslash, and
  normalising twice gives the same path as normalising once exactly when the path
  normalised once contains no two adjacent slashes. (The replacements are made in one
  pass each, so a run of three slashes leaves two.)
\<close>

theorem normalizePath_idempotent_iff:
  "backslash \<notin> set (normalizePath p) \<and>
   (normalizePath (normalizePath p) = normalizePath p
      \<longleftrightarrow> \<not> sublist ''//'' (normalizePath p))"
proof -
  have eq: "normalizePath (normalizePath p) = strings_Replace (normalizePath p) ''//'' ''/''"
    by (rule normalizePath_backslash_free) (rule normalizePath_no_backslash)
  have "normalizePath (normalizePath p) = normalizePath p
      \<longleftrightarrow> \<not> sublist ''//'' (normalizePath p)"
  proof
    assume idem: "normalizePath (normalizePath p) = normalizePath p"
    show "\<not> sublist ''//'' (normalizePath p)"
    proof
      assume "sublist ''//'' (normalizePath p)"
      then have "length (strings_Replace (normalizePath p) ''//'' ''/'') < length (normalizePath p)"
        by (intro strings_Replace_present) simp_all
      with eq idem show False by simp
    qed
  next
    assume "\<not> sublist ''//'' (normalizePath p)"
    then show "normalizePath (normalizePath p) = normalizePath p"
      by (simp add: eq strings_Replace_absent)
  qed
  then show ?thesis
    using normalizePath_no_backslash by simp
qed

text \<open>The amended C10 at the path \<^verbatim>\<open>a//b\<close>, which normalises to \<^verbatim>\<open>a/b\<close>.\<close>

theorem normalizePath_idempotent_iff_witness:
  "normalizePath ''a//b'' = ''a/b'' \<and> normalizePath (normalizePath ''a//b'') = normalizePath ''a//b''"
proof -
  have n: "normalizePath ''a//b'' = ''a/b''" by code_simp
  have "\<not> sublist ''//'' ''a/b''" by code_simp
  then show ?thesis
    using normalizePath_idempotent_iff [of "''a//b''"] n by simp
qed

text \<open>
  C10 as stated fails: three slashes normalise to two, and two normalise to one.
\<close>

theorem normalizePath_not_idempotent:
  "normalizePath ''///'' = ''//'' \<and> normalizePath (normalizePath ''///'') = ''/'' \<and>
   normalizePath (normalizePath ''///'') \<noteq> normalizePath ''///''"
  by code_simp

subsection \<open>The example world at work\<close>

lemma example_resolve: "resolveTargetFolderPath ''store/v1.lvi'' '''' = Returned (Inr ''v1'')"
  by code_simp

lemma example_normalize: "normalizePath ''v1'' = ''v1''"
  by code_simp

lemma example_downsync:
  "downSyncVersion example_env ''store'' ''store/v1.lvi'' '''' '''' '''' True validate '''' '''' '''' =
     ([GetFilesRecursivelyCall BeforeChange ''v1'', ReadTargetIndex ''v1'' [] 32768 0 3,
       CreateVersionIndexCall BeforeChange (HashAPI 3) ''v1'' 32768,
       CreateBlockStoreCall ''store'' [] ReadOnly,
       GetExistingStoreIndexCall
         (ShareBlockStore (LRUBlockStore (CompressBlockStore (FSBlockStore ''store'')) 32)) [21] 0,
       ChangeVersionCall ''v1'' True,
       FlushCall
         [ShareBlockStore (LRUBlockStore (CompressBlockStore (FSBlockStore ''store'')) 32),
          LRUBlockStore (CompressBlockStore (FSBlockStore ''store'')) 32,
          CompressBlockStore (FSBlockStore ''store''), NoBlockStore, NoBlockStore,
          FSBlockStore ''store'']]
      @ (if validate
         then [GetFilesRecursivelyCall AfterChange ''v1'',
               CreateVersionIndexCall AfterChange (HashAPI 3) ''v1'' 32768]
         else []),
      Returned None)"
  by (simp add: downSyncVersion_def example_resolve example_normalize example_env_def
      example_stores_def example_index_def scan_def getFolderIndex_def syncPhase_def
      validatePhase_def createBlockStoreForURI_def Let_def noCompressionType_def
      getCompressionTypesForFiles_def compareWithSource_def GetAssetCount_def map_get_def)

subsection \<open>Facts about strings.Split and the target folder\<close>

lemma splitFrom_Nil: "splitFrom [] sep cur = [cur]"
  by (simp add: splitFrom.simps)

lemma splitFrom_char:
  "splitFrom (x # xs) [c] cur =
     (if x = c then cur # splitFrom xs [c] [] else splitFrom xs [c] (cur @ [x]))"
  by (subst splitFrom.simps) simp

lemma splitFrom_not_Nil: "splitFrom s [c] cur \<noteq> []"
  by (induction s arbitrary: cur) (simp_all add: splitFrom_Nil splitFrom_char)

lemma hd_splitFrom: "hd (splitFrom s [c] cur) = cur @ takeWhile (\<lambda>x. x \<noteq> c) s"
  by (induction s arbitrary: cur) (simp_all add: splitFrom_Nil splitFrom_char)

lemma takeWhile_absent: "c \<notin> set xs \<Longrightarrow> takeWhile (\<lambda>x. x \<noteq> c) xs = xs"
  by (induction xs) auto

lemma rev_takeWhile_absent: "c \<notin> set xs \<Longrightarrow> rev (takeWhile (\<lambda>x. x \<noteq> c) (rev xs)) = xs"
proof -
  assume "c \<notin> set xs"
  then have "c \<notin> set (rev xs)" by simp
  then have "takeWhile (\<lambda>x. x \<noteq> c) (rev xs) = rev xs" by (rule takeWhile_absent)
  then show ?thesis by (simp only: rev_rev_ident)
qed

lemma takeWhile_snoc_absent: "c \<notin> set xs \<Longrightarrow> takeWhile (\<lambda>x. x \<noteq> c) (xs @ [c]) = xs"
  by (induction xs) auto

lemma takeWhile_rev_snoc:
  "rev (takeWhile (\<lambda>x. x \<noteq> c) (rev xs @ [c])) =
     (if c \<in> set xs then rev (takeWhile (\<lambda>x. x \<noteq> c) (rev xs)) else xs)"
proof (cases "c \<in> set xs")
  case True
  then show ?thesis by (simp add: takeWhile_append1)
next
  case False
  then have "takeWhile (\<lambda>x. x \<noteq> c) (rev xs @ [c]) = rev xs"
    using takeWhile_snoc_absent [of c "rev xs"] by simp
  with False show ?thesis by simp
qed

lemma last_splitFrom:
  "last (splitFrom s [c] cur) =
     (if c \<in> set s then rev (takeWhile (\<lambda>x. x \<noteq> c) (rev s)) else cur @ s)"
proof (induction s arbitrary: cur)
  case Nil
  then show ?case by (simp add: splitFrom_Nil)
next
  case (Cons x xs)
  show ?case
  proof (cases "x = c")
    case True
    have "last (splitFrom (x # xs) [c] cur) = last (splitFrom xs [c] [])"
      using True by (simp add: splitFrom_char splitFrom_not_Nil)
    also have "\<dots> = (if c \<in> set xs then rev (takeWhile (\<lambda>x. x \<noteq> c) (rev xs)) else xs)"
      by (simp add: Cons.IH)
    also have "\<dots> = rev (takeWhile (\<lambda>x. x \<noteq> c) (rev xs @ [c]))"
      by (simp add: takeWhile_rev_snoc)
    finally show ?thesis using True by simp
  next
    case False
    have "last (splitFrom (x # xs) [c] cur) = last (splitFrom xs [c] (cur @ [x]))"
      using False by (simp add: splitFrom_char)
    also have "\<dots> = (if c \<in> set xs then rev (takeWhile (\<lambda>x. x \<noteq> c) (rev xs)) else cur @ x # xs)"
      by (simp add: Cons.IH)
    finally show ?thesis using False
      by (auto simp: takeWhile_append1 takeWhile_append2)
  qed
qed

lemma last_strings_Split: "last (strings_Split s ''/'') = lastSegment s"
proof (cases "CHR ''/'' \<in> set s")
  case True
  then show ?thesis by (simp add: strings_Split_def last_splitFrom lastSegment_def)
next
  case False
  then show ?thesis
    by (simp add: strings_Split_def last_splitFrom lastSegment_def rev_takeWhile_absent)
qed

lemma hd_strings_Split: "hd (strings_Split s ''.'') = upToFirstDot s"
  by (simp add: strings_Split_def hd_splitFrom upToFirstDot_def)

lemma go_index_last:
  "xs \<noteq> [] \<Longrightarrow> go_index xs (int (length xs) - 1) = Some (last xs)"
  by (cases xs rule: rev_cases) (auto simp: go_index_def nth_append)

lemma go_index_first: "xs \<noteq> [] \<Longrightarrow> go_index xs 0 = Some (hd xs)"
  by (cases xs) (auto simp: go_index_def)

lemma strings_Split_not_Nil: "strings_Split s [c] \<noteq> []"
  by (simp add: strings_Split_def splitFrom_not_Nil)

lemma resolveTargetFolderPath_empty:
  "resolveTargetFolderPath sourceFilePath '''' =
     (if upToFirstDot (lastSegment (normalizePath sourceFilePath)) = ''''
      then Returned (Inl (UnableToResolveTargetPath sourceFilePath))
      else Returned (Inr (upToFirstDot (lastSegment (normalizePath sourceFilePath)))))"
  by (simp add: resolveTargetFolderPath_def Let_def go_index_last go_index_first
        strings_Split_not_Nil last_strings_Split hd_strings_Split)

lemma downSyncVersion_unfold:
  assumes "MakeRegexPathFilter_err e includeFilterRegEx excludeFilterRegEx = None"
    and "resolveTargetFolderPath sourceFilePath targetFolderPath = Returned (Inr resolved)"
    and "ReadFromURI e sourceFilePath = Inr vbuffer"
    and "ReadVersionIndexFromBuffer e vbuffer = (S, 0)"
    and "(if targetIndexPath = '''' then scan e BeforeChange resolved else ([], newFolderScanner))
           = (c0, sc)"
    and "getFolderIndex e BeforeChange resolved targetIndexPath (TargetChunkSize S) noCompressionType
           (HashIdentifier S) sc = (c2, ti)"
  shows "downSyncVersion e blobStoreURI sourceFilePath targetFolderPath targetIndexPath
      localCachePath retainPermissions validate versionLocalStoreIndexPath
      includeFilterRegEx excludeFilterRegEx
    = (case syncPhase e blobStoreURI localCachePath retainPermissions validate
              versionLocalStoreIndexPath resolved S ti of
         (c3, r) \<Rightarrow> (c0 @ [ReadTargetIndex resolved targetIndexPath (TargetChunkSize S)
                              noCompressionType (HashIdentifier S)] @ c2 @ c3, r))"
  using assms by (simp add: downSyncVersion_def Let_def)

subsection \<open>Claim C9: the target folder of a downsync without one\<close>

text \<open>
  C9. With an empty target folder path, the target folder is the last slash-separated
  segment of the normalised source path, truncated at its first dot (for
  \<^verbatim>\<open>store/v1.lvi\<close> it is \<^verbatim>\<open>v1\<close>); neither indexing of the source panics. When that
  name is empty, downsync returns an error before any call is made. When it is not empty
  and the source index is read, it is the folder handed to the reader of the target index.
\<close>

theorem target_folder_resolution:
  "resolveTargetFolderPath sourceFilePath '''' =
     (if upToFirstDot (lastSegment (normalizePath sourceFilePath)) = ''''
      then Returned (Inl (UnableToResolveTargetPath sourceFilePath))
      else Returned (Inr (upToFirstDot (lastSegment (normalizePath sourceFilePath)))))
   \<and> resolveTargetFolderPath ''store/v1.lvi'' '''' = Returned (Inr ''v1'')
   \<and> (upToFirstDot (lastSegment (normalizePath sourceFilePath)) = '''' \<longrightarrow>
        (\<exists>err. downSyncVersion e blobStoreURI sourceFilePath '''' targetIndexPath localCachePath
               retainPermissions validate versionLocalStoreIndexPath includeFilterRegEx excludeFilterRegEx
             = ([], Returned (Some err))))
   \<and> (upToFirstDot (lastSegment (normalizePath sourceFilePath)) \<noteq> ''''
        \<and> MakeRegexPathFilter_err e includeFilterRegEx excludeFilterRegEx = None
        \<and> ReadFromURI e sourceFilePath = Inr vbuffer
        \<and> ReadVersionIndexFromBuffer e vbuffer = (S, 0) \<longrightarrow>
        ReadTargetIndex (upToFirstDot (lastSegment (normalizePath sourceFilePath))) targetIndexPath
            (TargetChunkSize S) noCompressionType (HashIdentifier S)
          \<in> set (fst (downSyncVersion e blobStoreURI sourceFilePath '''' targetIndexPath localCachePath
               retainPermissions validate versionLocalStoreIndexPath includeFilterRegEx excludeFilterRegEx)))"
proof -
  let ?name = "upToFirstDot (lastSegment (normalizePath sourceFilePath))"
  have "\<exists>err. downSyncVersion e blobStoreURI sourceFilePath '''' targetIndexPath localCachePath
               retainPermissions validate versionLocalStoreIndexPath includeFilterRegEx excludeFilterRegEx
             = ([], Returned (Some err))"
    if "?name = ''''"
    using that
    by (cases "MakeRegexPathFilter_err e includeFilterRegEx excludeFilterRegEx")
       (simp_all add: downSyncVersion_def resolveTargetFolderPath_empty)
  moreover have "ReadTargetIndex ?name targetIndexPath (TargetChunkSize S) noCompressionType
        (HashIdentifier S)
      \<in> set (fst (downSyncVersion e blobStoreURI sourceFilePath '''' targetIndexPath localCachePath
               retainPermissions validate versionLocalStoreIndexPath includeFilterRegEx excludeFilterRegEx))"
    if name: "?name \<noteq> ''''"
      and filter: "MakeRegexPathFilter_err e includeFilterRegEx excludeFilterRegEx = None"
      and source: "ReadFromURI e sourceFilePath = Inr vbuffer"
        "ReadVersionIndexFromBuffer e vbuffer = (S, 0)"
  proof -
    from name have r: "resolveTargetFolderPath sourceFilePath '''' = Returned (Inr ?name)"
      by (simp add: resolveTargetFolderPath_empty)
    obtain c0 sc where sc: "(if targetIndexPath = '''' then scan e BeforeChange ?name
        else ([], newFolderScanner)) = (c0, sc)"
      by (cases "if targetIndexPath = '''' then scan e BeforeChange ?name
        else ([], newFolderScanner)") auto
    obtain c2 ti where gf: "getFolderIndex e BeforeChange ?name targetIndexPath
        (TargetChunkSize S) noCompressionType (HashIdentifier S) sc = (c2, ti)"
      by (cases "getFolderIndex e BeforeChange ?name targetIndexPath
        (TargetChunkSize S) noCompressionType (HashIdentifier S) sc") auto
    show ?thesis
      by (simp add: downSyncVersion_unfold [OF filter r source sc gf] split: prod.splits)
  qed
  ultimately show ?thesis
    using example_resolve resolveTargetFolderPath_empty by blast
qed

text \<open>
  C9 in the example world: \<^verbatim>\<open>store/.lvi\<close> has no name before its first dot and the
  downsync fails; \<^verbatim>\<open>store/v1.lvi\<close> resolves to \<^verbatim>\<open>v1\<close>, which the reader of the target
  index receives.
\<close>

theorem target_folder_resolution_witness:
  "upToFirstDot (lastSegment (normalizePath ''store/.lvi'')) = ''''
   \<and> (\<exists>err. downSyncVersion example_env ''store'' ''store/.lvi'' '''' '''' '''' True True '''' '''' ''''
              = ([], Returned (Some err)))
   \<and> upToFirstDot (lastSegment (normalizePath ''store/v1.lvi'')) = ''v1''
   \<and> ReadTargetIndex ''v1'' '''' 32768 0 3
        \<in> set (fst (downSyncVersion example_env ''store'' ''store/v1.lvi'' '''' '''' '''' True True
                      '''' '''' ''''))"
proof -
  have n1: "upToFirstDot (lastSegment (normalizePath ''store/.lvi'')) = ''''"
    by code_simp
  have n2: "upToFirstDot (lastSegment (normalizePath ''store/v1.lvi'')) = ''v1''"
    by code_simp
  have h: "MakeRegexPathFilter_err example_env '''' '''' = None"
    "ReadFromURI example_env ''store/v1.lvi'' = Inr ''lvi''"
    "ReadVersionIndexFromBuffer example_env ''lvi'' = (example_index, 0)"
    by (simp_all add: example_env_def)
  have "\<exists>err. downSyncVersion example_env ''store'' ''store/.lvi'' '''' '''' '''' True True '''' '''' ''''
              = ([], Returned (Some err))"
    using target_folder_resolution [where sourceFilePath = "''store/.lvi''" and e = example_env
        and blobStoreURI = "''store''" and targetIndexPath = "''''" and localCachePath = "''''"
        and retainPermissions = True and validate = True and versionLocalStoreIndexPath = "''''"
        and includeFilterRegEx = "''''" and excludeFilterRegEx = "''''"] n1
    by blast
  moreover have "ReadTargetIndex ''v1'' '''' (TargetChunkSize example_index) noCompressionType
        (HashIdentifier example_index)
      \<in> set (fst (downSyncVersion example_env ''store'' ''store/v1.lvi'' '''' '''' '''' True True
                      '''' '''' ''''))"
    using target_folder_resolution [where sourceFilePath = "''store/v1.lvi''" and e = example_env
        and blobStoreURI = "''store''" and targetIndexPath = "''''" and localCachePath = "''''"
        and retainPermissions = True and validate = True and versionLocalStoreIndexPath = "''''"
        and includeFilterRegEx = "''''" and excludeFilterRegEx = "''''"
        and vbuffer = "''lvi''" and S = example_index] n2 h
    by simp
  ultimately show ?thesis
    using n1 n2 by (simp add: example_index_def noCompressionType_def)
qed

subsection \<open>The target index of a downsync\<close>

lemma example_resolve_out: "resolveTargetFolderPath ''store/v1.lvi'' ''out'' = Returned (Inr ''out'')"
  by (simp add: resolveTargetFolderPath_def)

lemma example_normalize_out: "normalizePath ''out'' = ''out''"
  by code_simp

lemma scan_ok:
  "GetFilesRecursively e ph (normalizePath folder) = (files, 0) \<Longrightarrow>
   scan e ph folder = ([GetFilesRecursivelyCall ph (normalizePath folder)],
                       \<lparr>scanner_fileInfos = files, scanner_err = None\<rparr>)"
  by (simp add: scan_def)

lemma getFolderIndex_built:
  assumes "scanner_err sc = None"
    and "GetHashAPI_errno e hid = 0"
    and "CreateVersionIndex e ph (HashAPI hid) (normalizePath folder) (scanner_fileInfos sc)
           (Some (replicate (length (scanner_fileInfos sc)) ct)) tcs = (T, 0)"
  shows "getFolderIndex e ph folder '''' tcs ct hid sc
       = ([CreateVersionIndexCall ph (HashAPI hid) (normalizePath folder) tcs], Inr (T, HashAPI hid))"
  using assms by (simp add: getFolderIndex_def getCompressionTypesForFiles_def Let_def)

lemma getFolderIndex_read:
  assumes "indexPath \<noteq> ''''"
    and "ReadFromURI e indexPath = Inr tbuffer"
    and "ReadVersionIndexFromBuffer e tbuffer = (T, 0)"
    and "GetHashAPI_errno e hid = 0"
  shows "getFolderIndex e ph folder indexPath tcs ct hid sc = ([], Inr (T, HashAPI hid))"
  using assms by (simp add: getFolderIndex_def)

lemma syncPhase_nil_changes:
  assumes "snd (syncPhase e uri lc rp v vl r S (Inr (T, h))) = Returned None"
  shows "\<exists>store storeIndex. ChangeVersion_errno e store h storeIndex T S
            (fst (CreateVersionDiff e h T S)) (normalizePath r) rp = 0"
  using assms
  by (auto simp: syncPhase_def Let_def split: if_splits prod.splits sum.splits outcome.splits)


subsection \<open>Claim C1: the target index is built with the source's parameters\<close>

text \<open>
  C1 (as amended). Take a downsync whose path filter compiles, whose target folder resolves
  and whose source version index \<open>S\<close> is read and parsed, with a hash API for the hash
  identifier of \<open>S\<close>. Without a target index path, when the scan of the target folder gives
  the files and \<^verbatim>\<open>CreateVersionIndex\<close>, called for these files with the hash API of the
  hash identifier of \<open>S\<close> and the target chunk size of \<open>S\<close>, returns the index \<open>T\<close>: the
  target index reader gives \<open>T\<close>, the rest of the downsync runs on \<open>T\<close>, and a downsync that
  returns nil has changed the version from \<open>T\<close>, with the difference computed from \<open>T\<close>.
  With a target index path whose file is read and parsed as the index \<open>R\<close>, nothing is
  built: the target index reader gives \<open>R\<close> and the rest of the downsync runs on \<open>R\<close>.
\<close>

theorem downsync_builds_target_index:
  assumes filter: "MakeRegexPathFilter_err e includeFilterRegEx excludeFilterRegEx = None"
    and resolved: "resolveTargetFolderPath sourceFilePath targetFolderPath = Returned (Inr resolved)"
    and source: "ReadFromURI e sourceFilePath = Inr vbuffer"
      "ReadVersionIndexFromBuffer e vbuffer = (S, 0)"
    and hash: "GetHashAPI_errno e (HashIdentifier S) = 0"
  shows
   "(GetFilesRecursively e BeforeChange (normalizePath resolved) = (files, 0)
       \<and> CreateVersionIndex e BeforeChange (HashAPI (HashIdentifier S)) (normalizePath resolved) files
            (Some (replicate (length files) noCompressionType)) (TargetChunkSize S) = (T, 0) \<longrightarrow>
       snd (getFolderIndex e BeforeChange resolved '''' (TargetChunkSize S) noCompressionType
              (HashIdentifier S) (snd (scan e BeforeChange resolved)))
         = Inr (T, HashAPI (HashIdentifier S))
       \<and> snd (downSyncVersion e blobStoreURI sourceFilePath targetFolderPath '''' localCachePath
                retainPermissions validate versionLocalStoreIndexPath includeFilterRegEx excludeFilterRegEx)
         = snd (syncPhase e blobStoreURI localCachePath retainPermissions validate
                  versionLocalStoreIndexPath resolved S (Inr (T, HashAPI (HashIdentifier S))))
       \<and> (snd (downSyncVersion e blobStoreURI sourceFilePath targetFolderPath '''' localCachePath
                 retainPermissions validate versionLocalStoreIndexPath includeFilterRegEx excludeFilterRegEx)
            = Returned None \<longrightarrow>
          (\<exists>store storeIndex.
              ChangeVersion_errno e store (HashAPI (HashIdentifier S)) storeIndex T S
                (fst (CreateVersionDiff e (HashAPI (HashIdentifier S)) T S))
                (normalizePath resolved) retainPermissions = 0)))
    \<and> (targetIndexPath \<noteq> '''' \<and> ReadFromURI e targetIndexPath = Inr tbuffer
         \<and> ReadVersionIndexFromBuffer e tbuffer = (R, 0) \<longrightarrow>
       snd (getFolderIndex e BeforeChange resolved targetIndexPath (TargetChunkSize S) noCompressionType
              (HashIdentifier S) newFolderScanner)
         = Inr (R, HashAPI (HashIdentifier S))
       \<and> snd (downSyncVersion e blobStoreURI sourceFilePath targetFolderPath targetIndexPath localCachePath
                retainPermissions validate versionLocalStoreIndexPath includeFilterRegEx excludeFilterRegEx)
         = snd (syncPhase e blobStoreURI localCachePath retainPermissions validate
                  versionLocalStoreIndexPath resolved S (Inr (R, HashAPI (HashIdentifier S)))))"
proof (intro conjI impI)
  let ?hid = "HashIdentifier S" and ?tcs = "TargetChunkSize S"
  let ?down = "\<lambda>tip. downSyncVersion e blobStoreURI sourceFilePath targetFolderPath tip localCachePath
                retainPermissions validate versionLocalStoreIndexPath includeFilterRegEx excludeFilterRegEx"
  let ?sync = "syncPhase e blobStoreURI localCachePath retainPermissions validate
                  versionLocalStoreIndexPath resolved S"
  {
    assume a: "GetFilesRecursively e BeforeChange (normalizePath resolved) = (files, 0)
       \<and> CreateVersionIndex e BeforeChange (HashAPI ?hid) (normalizePath resolved) files
            (Some (replicate (length files) noCompressionType)) ?tcs = (T, 0)"
    let ?sc = "\<lparr>scanner_fileInfos = files, scanner_err = None\<rparr>"
    from a have sc: "scan e BeforeChange resolved
        = ([GetFilesRecursivelyCall BeforeChange (normalizePath resolved)], ?sc)"
      by (simp add: scan_ok)
    from a have built: "CreateVersionIndex e BeforeChange (HashAPI ?hid) (normalizePath resolved)
        (scanner_fileInfos ?sc) (Some (replicate (length (scanner_fileInfos ?sc)) noCompressionType)) ?tcs
        = (T, 0)"
      by simp
    have gf: "getFolderIndex e BeforeChange resolved '''' ?tcs noCompressionType ?hid ?sc
        = ([CreateVersionIndexCall BeforeChange (HashAPI ?hid) (normalizePath resolved) ?tcs],
           Inr (T, HashAPI ?hid))"
      by (rule getFolderIndex_built [OF _ hash built]) simp
    show g: "snd (getFolderIndex e BeforeChange resolved '''' ?tcs noCompressionType ?hid
                (snd (scan e BeforeChange resolved))) = Inr (T, HashAPI ?hid)"
      by (simp add: sc gf)
    have sc': "(if '''' = '''' then scan e BeforeChange resolved else ([], newFolderScanner))
        = ([GetFilesRecursivelyCall BeforeChange (normalizePath resolved)], ?sc)"
      by (simp add: sc)
    show d: "snd (?down '''') = snd (?sync (Inr (T, HashAPI ?hid)))"
      by (simp add: downSyncVersion_unfold [OF filter resolved source sc' gf] case_prod_beta)
    {
      assume "snd (?down '''') = Returned None"
      with d have "snd (?sync (Inr (T, HashAPI ?hid))) = Returned None" by simp
      then show "\<exists>store storeIndex.
              ChangeVersion_errno e store (HashAPI ?hid) storeIndex T S
                (fst (CreateVersionDiff e (HashAPI ?hid) T S))
                (normalizePath resolved) retainPermissions = 0"
        by (rule syncPhase_nil_changes)
    }
  }
  {
    assume b: "targetIndexPath \<noteq> '''' \<and> ReadFromURI e targetIndexPath = Inr tbuffer
         \<and> ReadVersionIndexFromBuffer e tbuffer = (R, 0)"
    then have gf: "getFolderIndex e BeforeChange resolved targetIndexPath ?tcs noCompressionType ?hid
        newFolderScanner = ([], Inr (R, HashAPI ?hid))"
      using getFolderIndex_read hash by blast
    then show "snd (getFolderIndex e BeforeChange resolved targetIndexPath ?tcs noCompressionType ?hid
        newFolderScanner) = Inr (R, HashAPI ?hid)"
      by simp
    from b have sc': "(if targetIndexPath = '''' then scan e BeforeChange resolved
        else ([], newFolderScanner)) = ([], newFolderScanner)"
      by simp
    show "snd (?down targetIndexPath) = snd (?sync (Inr (R, HashAPI ?hid)))"
      by (simp add: downSyncVersion_unfold [OF filter resolved source sc' gf] case_prod_beta)
  }
qed


text \<open>
  The amended C1 in the example world: without a target index path the folder \<^verbatim>\<open>v1\<close> is
  indexed with hash identifier 3 and target chunk size 32768, those of the source index, and
  the downsync returns nil; with the target index path \<^verbatim>\<open>target.lvi\<close> the index of that
  file is the target index.
\<close>

theorem downsync_builds_target_index_witness:
  "snd (getFolderIndex example_env BeforeChange ''v1'' '''' (TargetChunkSize example_index)
          noCompressionType (HashIdentifier example_index) (snd (scan example_env BeforeChange ''v1'')))
     = Inr (fst (CreateVersionIndex example_env BeforeChange (HashAPI (HashIdentifier example_index))
                   (normalizePath ''v1'') [] (Some []) (TargetChunkSize example_index)),
            HashAPI (HashIdentifier example_index))
   \<and> snd (downSyncVersion example_env ''store'' ''store/v1.lvi'' '''' '''' '''' True False '''' '''' '''')
     = Returned None
   \<and> (\<exists>store storeIndex.
         ChangeVersion_errno example_env store (HashAPI (HashIdentifier example_index)) storeIndex
           example_built_index example_index
           (fst (CreateVersionDiff example_env (HashAPI (HashIdentifier example_index))
                   example_built_index example_index))
           (normalizePath ''v1'') True = 0)
   \<and> snd (getFolderIndex example_env_target_index BeforeChange ''out'' ''target.lvi''
            (TargetChunkSize example_index) noCompressionType (HashIdentifier example_index)
            newFolderScanner)
     = Inr (example_target_index, HashAPI (HashIdentifier example_index))
   \<and> snd (downSyncVersion example_env_target_index ''store'' ''store/v1.lvi'' ''out'' ''target.lvi'' ''''
            False False '''' '''' '''')
     = snd (syncPhase example_env_target_index ''store'' '''' False False '''' ''out'' example_index
              (Inr (example_target_index, HashAPI (HashIdentifier example_index))))"
proof -
  have h: "MakeRegexPathFilter_err example_env '''' '''' = None"
    "ReadFromURI example_env ''store/v1.lvi'' = Inr ''lvi''"
    "ReadVersionIndexFromBuffer example_env ''lvi'' = (example_index, 0)"
    "GetHashAPI_errno example_env (HashIdentifier example_index) = 0"
    by (simp_all add: example_env_def)
  have b: "GetFilesRecursively example_env BeforeChange (normalizePath ''v1'') = ([], 0)"
    "CreateVersionIndex example_env BeforeChange (HashAPI (HashIdentifier example_index))
       (normalizePath ''v1'') [] (Some (replicate (length ([] :: file_infos)) noCompressionType))
       (TargetChunkSize example_index) = (example_built_index, 0)"
    by (simp_all add: example_env_def example_built_index_def)
  have nil: "snd (downSyncVersion example_env ''store'' ''store/v1.lvi'' '''' '''' '''' True False
      '''' '''' '''') = Returned None"
    by (simp add: example_downsync)
  have g: "MakeRegexPathFilter_err example_env_target_index '''' '''' = None"
    "ReadFromURI example_env_target_index ''store/v1.lvi'' = Inr ''lvi''"
    "ReadVersionIndexFromBuffer example_env_target_index ''lvi'' = (example_index, 0)"
    "GetHashAPI_errno example_env_target_index (HashIdentifier example_index) = 0"
    by (simp_all add: example_env_target_index_def example_env_def)
  have r: "''target.lvi'' \<noteq> ''''"
    "ReadFromURI example_env_target_index ''target.lvi'' = Inr ''tvi''"
    "ReadVersionIndexFromBuffer example_env_target_index ''tvi'' = (example_target_index, 0)"
    by (simp_all add: example_env_target_index_def example_env_def)
  from downsync_builds_target_index [OF h(1) example_resolve h(2,3,4),
      where files = "[]" and T = example_built_index and blobStoreURI = "''store''"
      and localCachePath = "''''" and retainPermissions = True and validate = False
      and versionLocalStoreIndexPath = "''''" and targetIndexPath = "''''"] b nil
  have 1: "snd (getFolderIndex example_env BeforeChange ''v1'' '''' (TargetChunkSize example_index)
          noCompressionType (HashIdentifier example_index) (snd (scan example_env BeforeChange ''v1'')))
     = Inr (example_built_index, HashAPI (HashIdentifier example_index))"
    and 2: "\<exists>store storeIndex.
         ChangeVersion_errno example_env store (HashAPI (HashIdentifier example_index)) storeIndex
           example_built_index example_index
           (fst (CreateVersionDiff example_env (HashAPI (HashIdentifier example_index))
                   example_built_index example_index))
           (normalizePath ''v1'') True = 0"
    by simp_all
  from downsync_builds_target_index [OF g(1) example_resolve_out g(2,3,4),
      where targetIndexPath = "''target.lvi''" and tbuffer = "''tvi''" and R = example_target_index
      and blobStoreURI = "''store''" and localCachePath = "''''" and retainPermissions = False
      and validate = False and versionLocalStoreIndexPath = "''''"] r
  have 3: "snd (getFolderIndex example_env_target_index BeforeChange ''out'' ''target.lvi''
            (TargetChunkSize example_index) noCompressionType (HashIdentifier example_index)
            newFolderScanner)
     = Inr (example_target_index, HashAPI (HashIdentifier example_index))"
    and 4: "snd (downSyncVersion example_env_target_index ''store'' ''store/v1.lvi'' ''out'' ''target.lvi'' ''''
            False False '''' '''' '''')
     = snd (syncPhase example_env_target_index ''store'' '''' False False '''' ''out'' example_index
              (Inr (example_target_index, HashAPI (HashIdentifier example_index))))"
    by simp_all
  have 5: "fst (CreateVersionIndex example_env BeforeChange (HashAPI (HashIdentifier example_index))
                   (normalizePath ''v1'') [] (Some []) (TargetChunkSize example_index))
      = example_built_index"
    using b(2) by simp
  show ?thesis
    using 1 2 3 4 nil by (simp only: 5 simp_thms)
qed

text \<open>
  C1 as stated fails: with the target index path \<^verbatim>\<open>target.lvi\<close> the downsync returns
  nil without constructing a version index; its target index is the one read from the
  file, made with hash identifier 99 and target chunk size 1, where the source index has 3
  and 32768, and it is not the index that a construction with the source's values gives.
\<close>

theorem downsync_target_index_read_not_built:
  "downSyncVersion example_env_target_index ''store'' ''store/v1.lvi'' ''out'' ''target.lvi'' ''''
       False False '''' '''' ''''
     = ([ReadTargetIndex ''out'' ''target.lvi'' 32768 0 3,
         CreateBlockStoreCall ''store'' [] ReadOnly,
         GetExistingStoreIndexCall
           (ShareBlockStore (LRUBlockStore (CompressBlockStore (FSBlockStore ''store'')) 32)) [21] 0,
         ChangeVersionCall ''out'' False,
         FlushCall
           [ShareBlockStore (LRUBlockStore (CompressBlockStore (FSBlockStore ''store'')) 32),
            LRUBlockStore (CompressBlockStore (FSBlockStore ''store'')) 32,
            CompressBlockStore (FSBlockStore ''store''), NoBlockStore, NoBlockStore,
            FSBlockStore ''store'']],
        Returned None)
   \<and> snd (getFolderIndex example_env_target_index BeforeChange ''out'' ''target.lvi''
            (TargetChunkSize example_index) noCompressionType (HashIdentifier example_index)
            newFolderScanner)
     = Inr (example_target_index, HashAPI (HashIdentifier example_index))
   \<and> HashIdentifier example_index = 3 \<and> HashIdentifier example_target_index = 99
   \<and> TargetChunkSize example_index = 32768 \<and> TargetChunkSize example_target_index = 1
   \<and> fst (CreateVersionIndex example_env_target_index BeforeChange (HashAPI (HashIdentifier example_index))
            (normalizePath ''out'') [] (Some []) (TargetChunkSize example_index))
     \<noteq> example_target_index"
  by (simp add: downSyncVersion_def example_resolve_out example_normalize_out
      example_env_target_index_def example_env_def
      example_stores_def example_index_def example_target_index_def scan_def getFolderIndex_def
      syncPhase_def newFolderScanner_def
      validatePhase_def createBlockStoreForURI_def Let_def noCompressionType_def
      getCompressionTypesForFiles_def compareWithSource_def GetAssetCount_def map_get_def)

subsection \<open>The comparison with the source index\<close>

lemma find_snoc:
  "find P (xs @ [x]) = (case find P xs of None \<Rightarrow> (if P x then Some x else None) | Some y \<Rightarrow> Some y)"
  by (induction xs) auto

lemma buildLookups_entries:
  "buildLookups as (m1, m2, m3) = (l1, l2, l3) \<Longrightarrow>
   l1 p = (case find (\<lambda>a. assetPath a = p) (rev as) of None \<Rightarrow> m1 p | Some a \<Rightarrow> Some (assetSize a)) \<and>
   l2 p = (case find (\<lambda>a. assetPath a = p) (rev as) of None \<Rightarrow> m2 p | Some a \<Rightarrow> Some (assetHash a)) \<and>
   l3 p = (case find (\<lambda>a. assetPath a = p) (rev as) of None \<Rightarrow> m3 p | Some a \<Rightarrow> Some (assetPermissions a))"
proof (induction as arbitrary: m1 m2 m3)
  case Nil
  then show ?case by simp
next
  case (Cons a as)
  from Cons.prems have "buildLookups as (m1(assetPath a \<mapsto> assetSize a), m2(assetPath a \<mapsto> assetHash a),
      m3(assetPath a \<mapsto> assetPermissions a)) = (l1, l2, l3)"
    by simp
  from Cons.IH [OF this] show ?case
    by (auto simp: find_snoc split: option.splits)
qed

lemma source_lookups:
  assumes "buildLookups (Assets S) (Map.empty, Map.empty, Map.empty) = (l1, l2, l3)"
  shows "l1 p = map_option assetSize (sourceEntry S p)"
    and "l2 p = map_option assetHash (sourceEntry S p)"
    and "l3 p = map_option assetPermissions (sourceEntry S p)"
  using buildLookups_entries [OF assms, of p]
  by (auto simp: sourceEntry_def split: option.splits)

lemma validateAssets_None:
  assumes "buildLookups (Assets S) (Map.empty, Map.empty, Map.empty) = (l1, l2, l3)"
  shows "validateAssets rp (l1, l2, l3) i vs = None \<longleftrightarrow> (\<forall>v \<in> set vs. agreesWithSource rp S v)"
proof (induction vs arbitrary: i)
  case Nil
  then show ?case by simp
next
  case (Cons v vs)
  note lk = source_lookups [OF assms, of "assetPath v"]
  show ?case
  proof (cases "sourceEntry S (assetPath v)")
    case None
    then show ?thesis
      using lk by (simp add: agreesWithSource_def Let_def)
  next
    case (Some s)
    then show ?thesis
      using lk Cons.IH [of "Suc i"]
      by (auto simp: agreesWithSource_def Let_def map_get_def)
  qed
qed

lemma compareWithSource_None:
  "compareWithSource rp V S = None \<longleftrightarrow>
     GetAssetCount V = GetAssetCount S \<and> (\<forall>v \<in> set (Assets V). agreesWithSource rp S v)"
proof -
  obtain l1 l2 l3 where l: "buildLookups (Assets S) (Map.empty, Map.empty, Map.empty) = (l1, l2, l3)"
    by (cases "buildLookups (Assets S) (Map.empty, Map.empty, Map.empty)") auto
  show ?thesis
    using validateAssets_None [OF l] by (simp add: compareWithSource_def l)
qed

lemma validatePhase_result:
  assumes "GetFilesRecursively e AfterChange (normalizePath r) = (files, 0)"
    and "CreateVersionIndex e AfterChange h (normalizePath r) files None tcs = (V, 0)"
  shows "validatePhase e rp r h tcs S =
           ([GetFilesRecursivelyCall AfterChange (normalizePath r),
             CreateVersionIndexCall AfterChange h (normalizePath r) tcs],
            compareWithSource rp V S)"
  using assms by (simp add: validatePhase_def Let_def)

lemma syncPhase_needs_target:
  "syncPhase e uri lc rp v vl r S ti = (cs, Returned None) \<Longrightarrow> \<exists>tv h. ti = Inr (tv, h)"
  by (cases ti) (auto simp: syncPhase_def Let_def split: if_splits prod.splits sum.splits outcome.splits)

lemma syncPhase_validate:
  assumes "syncPhase e uri lc rp False vl r S (Inr (tv, h)) = (cs, Returned None)"
  shows "syncPhase e uri lc rp True vl r S (Inr (tv, h)) =
      (cs @ fst (validatePhase e rp r h (TargetChunkSize S) S),
       Returned (snd (validatePhase e rp r h (TargetChunkSize S) S)))"
  using assms
  by (auto simp: syncPhase_def Let_def split: if_splits prod.splits sum.splits outcome.splits)

subsection \<open>Claim C2: the validation after a downsync\<close>

text \<open>
  C2. Take a downsync that reaches the validation phase (the same call without the
  validate flag returns nil) and whose second scan and indexing of the target folder
  succeed with the index \<open>V\<close>. With the validate flag it returns what the comparison of
  \<open>V\<close> with the source index \<open>S\<close> gives, and that is nil exactly when the asset counts are
  equal and every asset of \<open>V\<close> has its path in \<open>S\<close> with the same size and content hash
  and, only when permissions are retained, the same permissions.
\<close>

theorem downsync_validation:
  assumes reaches: "snd (downSyncVersion e blobStoreURI sourceFilePath targetFolderPath targetIndexPath
              localCachePath retainPermissions False versionLocalStoreIndexPath
              includeFilterRegEx excludeFilterRegEx) = Returned None"
    and resolved: "resolveTargetFolderPath sourceFilePath targetFolderPath = Returned (Inr resolved)"
    and source: "ReadFromURI e sourceFilePath = Inr vbuffer"
      "ReadVersionIndexFromBuffer e vbuffer = (S, errno)"
    and reindex: "GetFilesRecursively e AfterChange (normalizePath resolved) = (files, 0)"
      "CreateVersionIndex e AfterChange (HashAPI (HashIdentifier S)) (normalizePath resolved) files None
         (TargetChunkSize S) = (V, 0)"
  shows "snd (downSyncVersion e blobStoreURI sourceFilePath targetFolderPath targetIndexPath
              localCachePath retainPermissions True versionLocalStoreIndexPath
              includeFilterRegEx excludeFilterRegEx) = Returned (compareWithSource retainPermissions V S)
    \<and> (compareWithSource retainPermissions V S = None \<longleftrightarrow>
          GetAssetCount V = GetAssetCount S
          \<and> (\<forall>v \<in> set (Assets V). agreesWithSource retainPermissions S v))"
proof -
  from reaches have filter: "MakeRegexPathFilter_err e includeFilterRegEx excludeFilterRegEx = None"
    by (cases "MakeRegexPathFilter_err e includeFilterRegEx excludeFilterRegEx")
       (simp_all add: downSyncVersion_def)
  obtain c0 sc where sc: "(if targetIndexPath = '''' then scan e BeforeChange resolved
      else ([], newFolderScanner)) = (c0, sc)"
    by (cases "if targetIndexPath = '''' then scan e BeforeChange resolved
      else ([], newFolderScanner)") auto
  from reaches filter resolved source sc have errno: "errno = 0"
    by (cases "errno = 0") (simp_all add: downSyncVersion_def)
  obtain c2 ti where gf: "getFolderIndex e BeforeChange resolved targetIndexPath
      (TargetChunkSize S) noCompressionType (HashIdentifier S) sc = (c2, ti)"
    by (cases "getFolderIndex e BeforeChange resolved targetIndexPath
      (TargetChunkSize S) noCompressionType (HashIdentifier S) sc") auto
  have unfold: "downSyncVersion e blobStoreURI sourceFilePath targetFolderPath targetIndexPath
      localCachePath retainPermissions v versionLocalStoreIndexPath includeFilterRegEx excludeFilterRegEx
    = (case syncPhase e blobStoreURI localCachePath retainPermissions v versionLocalStoreIndexPath
              resolved S ti of
         (c3, r) \<Rightarrow> (c0 @ [ReadTargetIndex resolved targetIndexPath (TargetChunkSize S)
                              noCompressionType (HashIdentifier S)] @ c2 @ c3, r))" for v
    using filter resolved source sc errno gf
    by (simp add: downSyncVersion_def Let_def)
  obtain c3 where sp: "syncPhase e blobStoreURI localCachePath retainPermissions False
      versionLocalStoreIndexPath resolved S ti = (c3, Returned None)"
    using reaches unfold [of False]
    by (cases "syncPhase e blobStoreURI localCachePath retainPermissions False
      versionLocalStoreIndexPath resolved S ti") auto
  from syncPhase_needs_target [OF sp] obtain tv h where ti: "ti = Inr (tv, h)" by blast
  with gf have h: "h = HashAPI (HashIdentifier S)"
    by (auto simp: getFolderIndex_def Let_def split: if_splits option.splits sum.splits prod.splits)
  have "snd (syncPhase e blobStoreURI localCachePath retainPermissions True
      versionLocalStoreIndexPath resolved S ti)
    = Returned (snd (validatePhase e retainPermissions resolved h (TargetChunkSize S) S))"
    using syncPhase_validate sp ti by simp
  also have "\<dots> = Returned (compareWithSource retainPermissions V S)"
    using validatePhase_result [OF reindex [unfolded h [symmetric]]] by simp
  finally have "snd (downSyncVersion e blobStoreURI sourceFilePath targetFolderPath targetIndexPath
              localCachePath retainPermissions True versionLocalStoreIndexPath
              includeFilterRegEx excludeFilterRegEx) = Returned (compareWithSource retainPermissions V S)"
    using unfold [of True] by (simp split: prod.splits)
  then show ?thesis
    using compareWithSource_None by blast
qed

text \<open>
  C2 in the example world: the re-indexed target is the source index, and the validating
  downsync returns nil.
\<close>

theorem downsync_validation_witness:
  "snd (downSyncVersion example_env ''store'' ''store/v1.lvi'' '''' '''' '''' True True '''' '''' '''')
     = Returned (compareWithSource True example_index example_index)
   \<and> compareWithSource True example_index example_index = None
   \<and> list_all (agreesWithSource True example_index) (Assets example_index)"
proof -
  have cmp: "compareWithSource True example_index example_index = None"
    by (simp add: compareWithSource_def example_index_def map_get_def)
  have reaches: "snd (downSyncVersion example_env ''store'' ''store/v1.lvi'' '''' '''' '''' True False
      '''' '''' '''') = Returned None"
    by (simp add: example_downsync)
  have h: "ReadFromURI example_env ''store/v1.lvi'' = Inr ''lvi''"
    "ReadVersionIndexFromBuffer example_env ''lvi'' = (example_index, 0)"
    "GetFilesRecursively example_env AfterChange (normalizePath ''v1'') = ([''a.txt''], 0)"
    "CreateVersionIndex example_env AfterChange (HashAPI (HashIdentifier example_index))
       (normalizePath ''v1'') [''a.txt''] None (TargetChunkSize example_index) = (example_index, 0)"
    by (simp_all add: example_env_def)
  from downsync_validation [OF reaches example_resolve h] cmp show ?thesis
    by (simp add: list_all_iff)
qed

subsection \<open>Claim C7: the block store of a storage URI\<close>

lemma createBlockStoreForURI_file_without_path:
  "url_Parse env uri = Inr u \<Longrightarrow> Scheme u = ''file'' \<Longrightarrow> Path u = '''' \<Longrightarrow>
   createBlockStoreForURI env uri p tbs mcpb a = Panicked SliceBoundsOutOfRange"
  by (simp add: createBlockStoreForURI_def go_slice_from_def)

text \<open>
  What the function does on every input: the two Azure schemes give their error; \<^verbatim>\<open>gs\<close>
  and \<^verbatim>\<open>s3\<close> give the remote block store or the error of a constructor;
  \<^verbatim>\<open>file\<close> with a path that is not empty gives the file system store at the path
  without its first byte; a URI that does not parse, or any other scheme, gives the file
  system store at the URI itself. The case left is \<^verbatim>\<open>file\<close> with an empty path.
\<close>

lemma createBlockStoreForURI_dispatch:
  "createBlockStoreForURI env uri p tbs mcpb a =
     (case url_Parse env uri of
        Inl err \<Rightarrow> Returned (Inr (FSBlockStore uri))
      | Inr u \<Rightarrow>
          if Scheme u \<in> {''abfs'', ''abfss''} then
            Returned (Inl (if Scheme u = ''abfs'' then AzureGen1NotImplemented else AzureGen2NotImplemented))
          else if Scheme u = ''gs'' then
            (case NewGCSBlobStore_err env u of
               Some err \<Rightarrow> Returned (Inl err)
             | None \<Rightarrow>
                 (case NewRemoteBlockStore_err env (GCSBlobStore u) p a of
                    Some err \<Rightarrow> Returned (Inl err)
                  | None \<Rightarrow> Returned (Inr (RemoteBlockStore (GCSBlobStore u) p (numWorkerCount env) a))))
          else if Scheme u = ''s3'' then
            (let b = S3BlobStore (Host u) (if length (Path u) \<le> 1 then '''' else drop 1 (Path u) @ ''/'') in
             case NewRemoteBlockStore_err env b p a of
               Some err \<Rightarrow> Returned (Inl err)
             | None \<Rightarrow> Returned (Inr (RemoteBlockStore b p (numWorkerCount env) a)))
          else if Scheme u = ''file'' then
            (if Path u = '''' then Panicked SliceBoundsOutOfRange
             else Returned (Inr (FSBlockStore (drop 1 (Path u)))))
          else Returned (Inr (FSBlockStore uri)))"
proof (cases "url_Parse env uri")
  case (Inl err)
  then show ?thesis by (simp add: createBlockStoreForURI_def)
next
  case (Inr u)
  then show ?thesis
    by (cases "Path u")
       (auto simp: createBlockStoreForURI_def NewS3BlobStore_def go_slice_from_def Let_def
        split: option.splits)
qed

text \<open>
  C7. The claim promises a file system block store for every URI with the scheme
  \<^verbatim>\<open>file\<close>. For \<^verbatim>\<open>file://\<close> the parsed path is empty and the slice
  \<^verbatim>\<open>blobStoreURL.Path[1:]\<close> panics; \<^verbatim>\<open>NewS3BlobStore\<close> guards the same slice
  with a test of the length and returns a store for an empty path.
\<close>

theorem file_uri_without_path_panics:
  "createBlockStoreForURI example_stores ''file://'' '''' 8388608 1024 ReadOnly
     = Panicked SliceBoundsOutOfRange
   \<and> NewS3BlobStore \<lparr>Scheme = ''s3'', Host = ''bucket'', Path = ''''\<rparr>
     = Inr (S3BlobStore ''bucket'' '''')"
  by (simp add: createBlockStoreForURI_def example_stores_def go_slice_from_def NewS3BlobStore_def)

subsection \<open>Claim C8: the scanner checks at the end of cloneStore\<close>

lemma finalScannerChecks_nil_zip:
  "finalScannerChecks s None t \<noteq> Returned None"
  by (auto simp: finalScannerChecks_def scanner_Err_def split: option.splits outcome.splits prod.splits)

text \<open>
  Without a file of zip paths cloneStore never returns nil: whatever the stores, the lists
  and the versions do, it returns an error, exits, or panics in the check of the zip scanner.
\<close>

lemma cloneStore_without_zip_paths:
  "cloneStore e cloneOne sourceStoreURI targetStoreURI localCachePath sourcePaths ''''
      targetPaths targetBlockSize maxChunksPerBlock \<noteq> Returned None"
  by (auto simp: cloneStore_def Let_def finalScannerChecks_nil_zip
      split: outcome.splits sum.splits prod.splits loop_end.splits)

text \<open>
  C8. The claim says that cloneStore returns normally when no file of zip paths is given.
  In the example world, with one version that is cloned without an error, the loop ends
  and \<^verbatim>\<open>sourcesZipScanner.Err()\<close> is called on the nil scanner: a nil pointer
  dereference. Inside the loop the same scanner is used only after a test against nil.
\<close>

theorem cloneStore_without_zip_paths_panics:
  "cloneStore example_env (\<lambda>sourceStore targetStore sourceRemote targetRemote targetFilePath
        sourceFilePath sourceFileZipPath current. Returned (current, None))
      ''store'' ''target'' '''' ''sources.txt'' '''' ''targets.txt'' 8388608 1024
     = Panicked NilPointerDereference"
  by (simp add: cloneStore_def example_env_def example_stores_def createBlockStoreForURI_def
      finalScannerChecks_def scanner_Err_def Let_def)

subsection \<open>Claim C5: the zip fallback and paths outside the target\<close>

text \<open>
  The closure on a Unix system with the target directory \<^verbatim>\<open>out\<close>: the entry
  \<^verbatim>\<open>../evil\<close>, whose joined path \<^verbatim>\<open>evil\<close> is not inside \<^verbatim>\<open>out\<close>, is refused
  and nothing is made, and the entry \<^verbatim>\<open>dir/a.txt\<close> is extracted.
\<close>

lemma zip_fallback_in_named_target:
  "unix_Join ''out'' ''../evil'' = ''evil''
   \<and> \<not> strictlyInside ''out'' ''evil''
   \<and> extractAndWriteFile unix_fs ''out'' (example_entry ''../evil'')
       = ([], Returned (Some (IllegalFilePath ''evil'')))
   \<and> unix_Join ''out'' ''dir/a.txt'' = ''out/dir/a.txt''
   \<and> strictlyInside ''out'' ''out/dir/a.txt''
   \<and> extractAndWriteFile unix_fs ''out'' (example_entry ''dir/a.txt'')
       = ([MkdirAll ''out/dir'' 511, OpenFile ''out/dir/a.txt'' 420,
           Copy ''out/dir/a.txt'' ''content''], Returned None)"
  by code_simp

text \<open>
  Whatever the path functions are, an entry that fails the test of the closure makes no
  call on the file system and does not return nil.
\<close>

lemma extractAndWriteFile_refused:
  assumes "\<not> strings_HasPrefix (filepath_Join fe targetPath (zip_Name f))
               (filepath_Clean fe targetPath @ [os_PathSeparator fe])"
  shows "fst (extractAndWriteFile fe targetPath f) = []"
    and "snd (extractAndWriteFile fe targetPath f) \<noteq> Returned None"
  using assms
  by (cases "zip_Open f"; auto simp: extractAndWriteFile_def extractBody_def Let_def
      split: option.splits)+

text \<open>
  C5. The claim fails on the code. The test of the closure is that the joined path begins
  with the cleaned target path followed by the separator. With the target directory
  \<^verbatim>\<open>.\<close> the cleaned target is \<^verbatim>\<open>.\<close> and no cleaned path begins with \<^verbatim>\<open>./\<close>: the
  entry \<^verbatim>\<open>a.txt\<close>, whose joined path \<^verbatim>\<open>a.txt\<close> lies inside the target, is refused
  with the illegal file path error. With the target directory \<^verbatim>\<open>..\<close> the entry
  \<^verbatim>\<open>../x\<close> has the joined path \<^verbatim>\<open>../../x\<close>, which begins with \<^verbatim>\<open>../\<close> and is
  outside the target: it is extracted, and a file is made outside the target directory.
\<close>

theorem zip_fallback_containment_fails:
  "unix_Join ''.'' ''a.txt'' = ''a.txt''
   \<and> unix_Clean ''.'' = ''.''
   \<and> strictlyInside ''.'' ''a.txt''
   \<and> extractAndWriteFile unix_fs ''.'' (example_entry ''a.txt'')
       = ([], Returned (Some (IllegalFilePath ''a.txt'')))
   \<and> unix_Join ''..'' ''../x'' = ''../../x''
   \<and> unix_Clean ''..'' = ''..''
   \<and> \<not> strictlyInside ''..'' ''../../x''
   \<and> extractAndWriteFile unix_fs ''..'' (example_entry ''../x'')
       = ([MkdirAll ''../..'' 511, OpenFile ''../../x'' 420, Copy ''../../x'' ''content''],
          Returned None)"
  by code_simp

subsection \<open>One version of a prune, and the batches\<close>

lemma processVersion_local:
  assumes "ReadFromURI e src = Inr vb" "ReadVersionIndexFromBuffer e vb = (vi, 0)"
    and "lsi \<noteq> ''''" "\<not> w" "ReadFromURI e lsi = Inr sb" "ReadStoreIndexFromBuffer e sb = (si, 0)"
    and "ValidateStore e si vi = 0"
  shows "processVersion e st uri w d src lsi = ([], BlockHashes si, None)"
  using assms
  by (simp add: processVersion_def readVersionLocalStoreIndex_def queryRemoteStore_def
      writeVersionLocalStoreIndexFile_def)

lemma readVersionLocalStoreIndex_none:
  assumes "lsi = '''' \<or> w \<or> (\<exists>err. ReadFromURI e lsi = Inl err)
      \<or> (\<exists>sb si. ReadFromURI e lsi = Inr sb \<and> ReadStoreIndexFromBuffer e sb = (si, 0)
            \<and> ValidateStore e si vi \<noteq> 0)"
  shows "readVersionLocalStoreIndex e w lsi vi = Continue None"
  using assms by (auto simp: readVersionLocalStoreIndex_def)

lemma processVersion_remote:
  assumes "ReadFromURI e src = Inr vb" "ReadVersionIndexFromBuffer e vb = (vi, 0)"
    and "readVersionLocalStoreIndex e w lsi vi = Continue None"
    and "GetExistingStoreIndexSync e st (ChunkHashes vi) 0 = (ri, 0)"
  shows "processVersion e st uri w d src lsi =
     (if ValidateStore e ri vi = 0
      then ([GetExistingStoreIndexCall st (ChunkHashes vi) 0]
              @ fst (writeVersionLocalStoreIndexFile e w d lsi ri),
            BlockHashes ri, snd (writeVersionLocalStoreIndexFile e w d lsi ri))
      else if d
      then ([GetExistingStoreIndexCall st (ChunkHashes vi) 0, LogMissingData uri src], [], None)
      else ([GetExistingStoreIndexCall st (ChunkHashes vi) 0], [],
            Some (ErrnoError (ValidateStore e ri vi) ''Data is missing in store'')))"
  using assms
  by (simp add: processVersion_def queryRemoteStore_def Let_def split: prod.splits)

lemma scanBatches_Nil: "scanBatches e st uri w d bc [] used = ([], Returned (Inr used))"
  by (simp add: scanBatches.simps)

lemma scanBatches_fail:
  assumes "versions \<noteq> []" "0 < bc"
    and "List.map_filter (\<lambda>r. snd (snd r)) (runBatch e st uri w d (take bc versions)) = err # others"
  shows "scanBatches e st uri w d bc versions used =
      (concat (map fst (runBatch e st uri w d (take bc versions))), Returned (Inl err))"
  using assms by (subst scanBatches.simps) (simp add: Let_def)

lemma scanBatches_next:
  assumes "versions \<noteq> []" "0 < bc"
    and "List.map_filter (\<lambda>r. snd (snd r)) (runBatch e st uri w d (take bc versions)) = []"
  shows "scanBatches e st uri w d bc versions used =
      (concat (map fst (runBatch e st uri w d (take bc versions)))
         @ fst (scanBatches e st uri w d bc (drop bc versions)
                  (fold bump (concat (map (\<lambda>r. fst (snd r)) (runBatch e st uri w d (take bc versions))))
                     used)),
       snd (scanBatches e st uri w d bc (drop bc versions)
              (fold bump (concat (map (\<lambda>r. fst (snd r)) (runBatch e st uri w d (take bc versions))))
                 used)))"
  using assms by (subst scanBatches.simps) (simp add: Let_def case_prod_beta)

lemma runBatch_error:
  assumes "version \<in> set batch"
    and "snd (snd (processVersion e st uri w d (fst version) (snd version))) = Some err"
  shows "List.map_filter (\<lambda>r. snd (snd r)) (runBatch e st uri w d batch) \<noteq> []"
proof -
  from assms(1) have "processVersion e st uri w d (fst version) (snd version)
      \<in> set (runBatch e st uri w d batch)"
    by (force simp: runBatch_def case_prod_beta)
  with assms(2) have "err \<in> set (List.map_filter (\<lambda>r. snd (snd r)) (runBatch e st uri w d batch))"
    by (force simp: List.map_filter_def)
  then show ?thesis by auto
qed

lemma scanBatches_error:
  assumes "version \<in> set versions"
    and "snd (snd (processVersion e st uri w d (fst version) (snd version))) = Some err"
    and "0 < bc"
  shows "\<exists>err'. snd (scanBatches e st uri w d bc versions used) = Returned (Inl err')"
  using assms(1)
proof (induction versions arbitrary: used rule: length_induct)
  case (1 versions)
  then have ne: "versions \<noteq> []" by auto
  show ?case
  proof (cases "List.map_filter (\<lambda>r. snd (snd r)) (runBatch e st uri w d (take bc versions))")
    case (Cons batchError others)
    then show ?thesis
      using scanBatches_fail [OF ne assms(3) Cons] by simp
  next
    case Nil
    with runBatch_error [OF _ assms(2)] have "version \<notin> set (take bc versions)"
      by blast
    with "1.prems" have in_rest: "version \<in> set (drop bc versions)"
      by (metis Un_iff append_take_drop_id set_append)
    have "length (drop bc versions) < length versions"
      using ne assms(3) by simp
    with "1.IH" in_rest show ?thesis
      using scanBatches_next [OF ne assms(3) Nil] by simp
  qed
qed

lemma createBlockStoreForURI_ReadOnly:
  "createBlockStoreForURI env uri indexPath targetBlockSize maxChunksPerBlock ReadOnly = Returned (Inr st)
   \<Longrightarrow> dryRunStore st"
  by (auto simp: createBlockStoreForURI_def dryRunStore_def
      split: sum.splits if_splits option.splits)

lemma processVersion_dry_calls:
  "dryRunStore st \<Longrightarrow> c \<in> set (fst (processVersion e st uri w True src lsi)) \<Longrightarrow> dryRunCall c"
  by (auto simp: processVersion_def readVersionLocalStoreIndex_def queryRemoteStore_def
      writeVersionLocalStoreIndexFile_def dryRunCall_def Let_def
      split: sum.splits prod.splits if_splits step.splits option.splits)

lemma runBatch_dry_calls:
  assumes "dryRunStore st"
    and "c \<in> set (concat (map fst (runBatch e st uri w True batch)))"
  shows "dryRunCall c"
proof -
  from assms(2) obtain version where "version \<in> set batch"
    and "c \<in> set (fst (processVersion e st uri w True (fst version) (snd version)))"
    by (auto simp: runBatch_def case_prod_beta)
  then show ?thesis by (auto dest: processVersion_dry_calls [OF assms(1)])
qed

lemma scanBatches_dry_calls:
  assumes st: "dryRunStore st"
  shows "c \<in> set (fst (scanBatches e st uri w True bc versions used)) \<Longrightarrow> dryRunCall c"
proof (induction versions arbitrary: used rule: length_induct)
  case (1 versions)
  show ?case
  proof (cases "versions = [] \<or> bc = 0")
    case True
    with "1.prems" show ?thesis
      by (subst (asm) scanBatches.simps) (auto split: if_splits)
  next
    case False
    then have ne: "versions \<noteq> []" and bc: "0 < bc" by auto
    let ?batch = "runBatch e st uri w True (take bc versions)"
    show ?thesis
    proof (cases "List.map_filter (\<lambda>r. snd (snd r)) ?batch")
      case (Cons batchError others)
      from "1.prems" have "c \<in> set (concat (map fst ?batch))"
        by (simp only: scanBatches_fail [OF ne bc Cons] fst_conv)
      then show ?thesis by (rule runBatch_dry_calls [OF st])
    next
      case Nil
      let ?used = "fold bump (concat (map (\<lambda>r. fst (snd r)) ?batch)) used"
      from "1.prems" have "c \<in> set (concat (map fst ?batch))
          \<or> c \<in> set (fst (scanBatches e st uri w True bc (drop bc versions) ?used))"
        by (simp only: scanBatches_next [OF ne bc Nil] fst_conv set_append Un_iff)
      then show ?thesis
      proof
        assume "c \<in> set (concat (map fst ?batch))"
        then show ?thesis by (rule runBatch_dry_calls [OF st])
      next
        assume rest: "c \<in> set (fst (scanBatches e st uri w True bc (drop bc versions) ?used))"
        have "length (drop bc versions) < length versions"
          using ne bc by simp
        with "1.IH" rest show ?thesis by blast
      qed
    qed
  qed
qed

lemma bump_keys:
  "map fst (bump h kvs) = (if h \<in> set (map fst kvs) then map fst kvs else map fst kvs @ [h])"
  by (induction kvs) (auto split: if_splits)

lemma bump_set: "set (map fst (bump h kvs)) = insert h (set (map fst kvs))"
  by (simp only: bump_keys) auto

lemma bump_distinct: "distinct (map fst kvs) \<Longrightarrow> distinct (map fst (bump h kvs))"
  by (simp only: bump_keys) auto

lemma fold_bump_keys:
  "distinct (map fst used) \<Longrightarrow>
   distinct (map fst (fold bump hs used))
   \<and> set (map fst (fold bump hs used)) = set (map fst used) \<union> set hs"
proof (induction hs arbitrary: used)
  case Nil
  then show ?case by simp
next
  case (Cons h hs)
  from Cons.IH [OF bump_distinct [OF Cons.prems, of h]]
  have "distinct (map fst (fold bump hs (bump h used)))"
    and "set (map fst (fold bump hs (bump h used))) = set (map fst (bump h used)) \<union> set hs"
    by blast+
  then show ?case
    by (simp only: bump_set fold_simps) auto
qed

lemma runBatch_blocks:
  "set (concat (map (\<lambda>r. fst (snd r)) (runBatch e st uri w d batch)))
     = (\<Union>version \<in> set batch. versionBlocks e st uri w d version)"
  by (simp add: runBatch_def versionBlocks_def case_prod_beta)

lemma scanBatches_used:
  assumes "snd (scanBatches e st uri w d bc versions used) = Returned (Inr used')"
    and "distinct (map fst used)"
  shows "distinct (map fst used') \<and>
     set (map fst used') = set (map fst used)
        \<union> (\<Union>version \<in> set versions. versionBlocks e st uri w d version)"
  using assms
proof (induction versions arbitrary: used rule: length_induct)
  case (1 versions)
  show ?case
  proof (cases "versions = []")
    case True
    with "1.prems" show ?thesis by (simp add: scanBatches_Nil)
  next
    case ne: False
    show ?thesis
    proof (cases "bc = 0")
      case True
      with ne "1.prems" show ?thesis
        by (subst (asm) scanBatches.simps) simp
    next
      case False
      then have bc: "0 < bc" by simp
      let ?batch = "take bc versions"
      let ?used = "fold bump (concat (map (\<lambda>r. fst (snd r)) (runBatch e st uri w d ?batch))) used"
      show ?thesis
      proof (cases "List.map_filter (\<lambda>r. snd (snd r)) (runBatch e st uri w d ?batch)")
        case (Cons batchError others)
        from "1.prems"(1) show ?thesis
          by (simp only: scanBatches_fail [OF ne bc Cons] snd_conv) simp
      next
        case Nil
        have rest: "snd (scanBatches e st uri w d bc (drop bc versions) ?used) = Returned (Inr used')"
          using "1.prems"(1) by (simp only: scanBatches_next [OF ne bc Nil] snd_conv)
        have du: "distinct (map fst ?used)"
          using fold_bump_keys [OF "1.prems"(2)] by blast
        have su: "set (map fst ?used) = set (map fst used)
              \<union> (\<Union>version \<in> set ?batch. versionBlocks e st uri w d version)"
          using fold_bump_keys [OF "1.prems"(2)] by (simp only: runBatch_blocks)
        have "length (drop bc versions) < length versions"
          using ne bc by simp
        with "1.IH" rest du have ih: "distinct (map fst used') \<and>
            set (map fst used') = set (map fst ?used)
              \<union> (\<Union>version \<in> set (drop bc versions). versionBlocks e st uri w d version)"
          by blast
        have "set versions = set ?batch \<union> set (drop bc versions)"
          by (metis append_take_drop_id set_append)
        then have "(\<Union>version \<in> set versions. versionBlocks e st uri w d version)
            = (\<Union>version \<in> set ?batch. versionBlocks e st uri w d version)
              \<union> (\<Union>version \<in> set (drop bc versions). versionBlocks e st uri w d version)"
          by (simp only: UN_Un)
        with ih su show ?thesis
          by (simp only: Un_assoc)
      qed
    qed
  qed
qed

lemma scanBatches_kept:
  assumes "snd (scanBatches e st uri w d bc versions []) = Returned (Inr used)"
  shows "length used = card (\<Union>version \<in> set versions. versionBlocks e st uri w d version)"
proof -
  from scanBatches_used [OF assms] have d: "distinct (map fst used)"
    and s: "set (map fst used) = (\<Union>version \<in> set versions. versionBlocks e st uri w d version)"
    by simp_all
  have "card (set (map fst used)) = length (map fst used)"
    using d by (rule distinct_card)
  with s show ?thesis by simp
qed

lemma pruneStore_dry_unfold:
  assumes "createBlockStoreForURI (stores e) uri '''' 8388608 1024 ReadOnly = Returned (Inr st)"
    and "os_Open e sp = Inr (paths, scanErr)"
    and "readVersionLocalStoreIndexPaths e sp lsp paths = Returned (Inr lsiPaths)"
  shows "pruneStore e uri sp lsp w True =
     (case snd (scanBatches e st uri w True (min (numWorkerCount (stores e)) (length paths))
                  (pairVersions paths lsiPaths) []) of
        Returned (Inr used) \<Rightarrow>
          ([CreateBlockStoreCall uri '''' ReadOnly]
             @ fst (scanBatches e st uri w True (min (numWorkerCount (stores e)) (length paths))
                      (pairVersions paths lsiPaths) [])
             @ [PrintWouldKeep (length used)], Returned None)
      | Returned (Inl err) \<Rightarrow>
          ([CreateBlockStoreCall uri '''' ReadOnly]
             @ fst (scanBatches e st uri w True (min (numWorkerCount (stores e)) (length paths))
                      (pairVersions paths lsiPaths) []), Returned (Some err))
      | Panicked p \<Rightarrow>
          ([CreateBlockStoreCall uri '''' ReadOnly]
             @ fst (scanBatches e st uri w True (min (numWorkerCount (stores e)) (length paths))
                      (pairVersions paths lsiPaths) []), Panicked p)
      | Exited err \<Rightarrow>
          ([CreateBlockStoreCall uri '''' ReadOnly]
             @ fst (scanBatches e st uri w True (min (numWorkerCount (stores e)) (length paths))
                      (pairVersions paths lsiPaths) []), Exited err)
      | Diverged \<Rightarrow>
          ([CreateBlockStoreCall uri '''' ReadOnly]
             @ fst (scanBatches e st uri w True (min (numWorkerCount (stores e)) (length paths))
                      (pairVersions paths lsiPaths) []), Diverged))"
  using assms
  by (cases "scanBatches e st uri w True (min (numWorkerCount (stores e)) (length paths))
                  (pairVersions paths lsiPaths) []")
     (simp add: pruneStore_def pruneOrReport_def Let_def split: outcome.splits sum.splits)

lemma pruneStore_dry_early:
  assumes "\<not> (\<exists>st paths scanErr lsiPaths.
      createBlockStoreForURI (stores e) uri '''' 8388608 1024 ReadOnly = Returned (Inr st)
      \<and> os_Open e sp = Inr (paths, scanErr)
      \<and> readVersionLocalStoreIndexPaths e sp lsp paths = Returned (Inr lsiPaths))"
  shows "fst (pruneStore e uri sp lsp w True) = [CreateBlockStoreCall uri '''' ReadOnly]
    \<and> snd (pruneStore e uri sp lsp w True) \<noteq> Returned None"
  using assms
  by (auto simp: pruneStore_def Let_def split: outcome.splits sum.splits prod.splits)

subsection \<open>Claim C3: a dry run of prune changes nothing\<close>

text \<open>
  C3. In a dry run the store is made by \<^verbatim>\<open>createBlockStoreForURI\<close> with the access type
  \<^verbatim>\<open>ReadOnly\<close>: a remote block store (gs, s3) carries that access type, and a block store
  of the file system takes none. Every call made opens the store so or only reads from it:
  no block is pruned, no store index file is written, nothing is flushed. When the dry run
  returns nil, the last thing it does is to print the number of blocks that would be kept:
  the number of distinct block hashes that the versions of the list use in that store.
\<close>

theorem prune_dry_run_changes_nothing:
  "(\<forall>c \<in> set (fst (pruneStore e storageURI sourcePaths versionLocalStoreIndexesPath
                      writeVersionLocalStoreIndex True)). dryRunCall c)
   \<and> (\<forall>remoteStore.
         createBlockStoreForURI (stores e) storageURI '''' 8388608 1024 ReadOnly
           = Returned (Inr remoteStore) \<longrightarrow>
         (\<exists>path. remoteStore = FSBlockStore path)
         \<or> (\<exists>blobStore. remoteStore
               = RemoteBlockStore blobStore '''' (numWorkerCount (stores e)) ReadOnly))
   \<and> (snd (pruneStore e storageURI sourcePaths versionLocalStoreIndexesPath
              writeVersionLocalStoreIndex True) = Returned None \<longrightarrow>
        (\<exists>remoteStore sourceFilePaths scanErr versionLocalStoreIndexFilePaths.
           createBlockStoreForURI (stores e) storageURI '''' 8388608 1024 ReadOnly
             = Returned (Inr remoteStore)
           \<and> dryRunStore remoteStore
           \<and> os_Open e sourcePaths = Inr (sourceFilePaths, scanErr)
           \<and> readVersionLocalStoreIndexPaths e sourcePaths versionLocalStoreIndexesPath sourceFilePaths
             = Returned (Inr versionLocalStoreIndexFilePaths)
           \<and> fst (pruneStore e storageURI sourcePaths versionLocalStoreIndexesPath
                     writeVersionLocalStoreIndex True)
             = [CreateBlockStoreCall storageURI '''' ReadOnly]
               @ fst (scanBatches e remoteStore storageURI writeVersionLocalStoreIndex True
                        (min (numWorkerCount (stores e)) (length sourceFilePaths))
                        (pairVersions sourceFilePaths versionLocalStoreIndexFilePaths) [])
               @ [PrintWouldKeep
                    (card (\<Union>version \<in> set (pairVersions sourceFilePaths versionLocalStoreIndexFilePaths).
                             versionBlocks e remoteStore storageURI writeVersionLocalStoreIndex True
                               version))]))"
proof (intro conjI)
  show "\<forall>remoteStore.
         createBlockStoreForURI (stores e) storageURI '''' 8388608 1024 ReadOnly
           = Returned (Inr remoteStore) \<longrightarrow>
         (\<exists>path. remoteStore = FSBlockStore path)
         \<or> (\<exists>blobStore. remoteStore
               = RemoteBlockStore blobStore '''' (numWorkerCount (stores e)) ReadOnly)"
    by (auto simp: createBlockStoreForURI_def split: sum.splits if_splits option.splits)
next
  show "\<forall>c \<in> set (fst (pruneStore e storageURI sourcePaths versionLocalStoreIndexesPath
                      writeVersionLocalStoreIndex True)). dryRunCall c"
  proof (cases "\<exists>st paths scanErr lsiPaths.
      createBlockStoreForURI (stores e) storageURI '''' 8388608 1024 ReadOnly = Returned (Inr st)
      \<and> os_Open e sourcePaths = Inr (paths, scanErr)
      \<and> readVersionLocalStoreIndexPaths e sourcePaths versionLocalStoreIndexesPath paths
          = Returned (Inr lsiPaths)")
    case False
    from pruneStore_dry_early [OF False] show ?thesis
      by (simp add: dryRunCall_def)
  next
    case True
    then obtain st paths scanErr lsiPaths where
      st: "createBlockStoreForURI (stores e) storageURI '''' 8388608 1024 ReadOnly = Returned (Inr st)"
      and paths: "os_Open e sourcePaths = Inr (paths, scanErr)"
      and lsis: "readVersionLocalStoreIndexPaths e sourcePaths versionLocalStoreIndexesPath paths
          = Returned (Inr lsiPaths)"
      by blast
    let ?scan = "scanBatches e st storageURI writeVersionLocalStoreIndex True
                  (min (numWorkerCount (stores e)) (length paths)) (pairVersions paths lsiPaths) []"
    note unfold = pruneStore_dry_unfold [OF st paths lsis, of writeVersionLocalStoreIndex]
    have "\<forall>c \<in> set (fst ?scan). dryRunCall c"
      using scanBatches_dry_calls [OF createBlockStoreForURI_ReadOnly [OF st]] by blast
    then show ?thesis
      unfolding unfold by (auto simp: dryRunCall_def split: outcome.splits sum.splits)
  qed
next
  show "snd (pruneStore e storageURI sourcePaths versionLocalStoreIndexesPath
              writeVersionLocalStoreIndex True) = Returned None \<longrightarrow>
        (\<exists>remoteStore sourceFilePaths scanErr versionLocalStoreIndexFilePaths.
           createBlockStoreForURI (stores e) storageURI '''' 8388608 1024 ReadOnly
             = Returned (Inr remoteStore)
           \<and> dryRunStore remoteStore
           \<and> os_Open e sourcePaths = Inr (sourceFilePaths, scanErr)
           \<and> readVersionLocalStoreIndexPaths e sourcePaths versionLocalStoreIndexesPath sourceFilePaths
             = Returned (Inr versionLocalStoreIndexFilePaths)
           \<and> fst (pruneStore e storageURI sourcePaths versionLocalStoreIndexesPath
                     writeVersionLocalStoreIndex True)
             = [CreateBlockStoreCall storageURI '''' ReadOnly]
               @ fst (scanBatches e remoteStore storageURI writeVersionLocalStoreIndex True
                        (min (numWorkerCount (stores e)) (length sourceFilePaths))
                        (pairVersions sourceFilePaths versionLocalStoreIndexFilePaths) [])
               @ [PrintWouldKeep
                    (card (\<Union>version \<in> set (pairVersions sourceFilePaths versionLocalStoreIndexFilePaths).
                             versionBlocks e remoteStore storageURI writeVersionLocalStoreIndex True
                               version))])"
  proof
    assume ok: "snd (pruneStore e storageURI sourcePaths versionLocalStoreIndexesPath
              writeVersionLocalStoreIndex True) = Returned None"
    have "\<exists>st paths scanErr lsiPaths.
      createBlockStoreForURI (stores e) storageURI '''' 8388608 1024 ReadOnly = Returned (Inr st)
      \<and> os_Open e sourcePaths = Inr (paths, scanErr)
      \<and> readVersionLocalStoreIndexPaths e sourcePaths versionLocalStoreIndexesPath paths
          = Returned (Inr lsiPaths)"
      using pruneStore_dry_early [of e storageURI sourcePaths versionLocalStoreIndexesPath
          writeVersionLocalStoreIndex] ok
      by blast
    then obtain st paths scanErr lsiPaths where
      st: "createBlockStoreForURI (stores e) storageURI '''' 8388608 1024 ReadOnly = Returned (Inr st)"
      and paths: "os_Open e sourcePaths = Inr (paths, scanErr)"
      and lsis: "readVersionLocalStoreIndexPaths e sourcePaths versionLocalStoreIndexesPath paths
          = Returned (Inr lsiPaths)"
      by blast
    let ?scan = "scanBatches e st storageURI writeVersionLocalStoreIndex True
                  (min (numWorkerCount (stores e)) (length paths)) (pairVersions paths lsiPaths) []"
    note unfold = pruneStore_dry_unfold [OF st paths lsis, of writeVersionLocalStoreIndex]
    from ok obtain used where used: "snd ?scan = Returned (Inr used)"
      unfolding unfold by (auto split: outcome.splits sum.splits)
    have report: "fst (pruneStore e storageURI sourcePaths versionLocalStoreIndexesPath
                     writeVersionLocalStoreIndex True)
        = [CreateBlockStoreCall storageURI '''' ReadOnly] @ fst ?scan
          @ [PrintWouldKeep (card (\<Union>version \<in> set (pairVersions paths lsiPaths).
                versionBlocks e st storageURI writeVersionLocalStoreIndex True version))]"
      using scanBatches_kept [OF used] used unfolding unfold by simp
    from st createBlockStoreForURI_ReadOnly [OF st] paths lsis report show "\<exists>remoteStore sourceFilePaths scanErr versionLocalStoreIndexFilePaths.
           createBlockStoreForURI (stores e) storageURI '''' 8388608 1024 ReadOnly
             = Returned (Inr remoteStore)
           \<and> dryRunStore remoteStore
           \<and> os_Open e sourcePaths = Inr (sourceFilePaths, scanErr)
           \<and> readVersionLocalStoreIndexPaths e sourcePaths versionLocalStoreIndexesPath sourceFilePaths
             = Returned (Inr versionLocalStoreIndexFilePaths)
           \<and> fst (pruneStore e storageURI sourcePaths versionLocalStoreIndexesPath
                     writeVersionLocalStoreIndex True)
             = [CreateBlockStoreCall storageURI '''' ReadOnly]
               @ fst (scanBatches e remoteStore storageURI writeVersionLocalStoreIndex True
                        (min (numWorkerCount (stores e)) (length sourceFilePaths))
                        (pairVersions sourceFilePaths versionLocalStoreIndexFilePaths) [])
               @ [PrintWouldKeep
                    (card (\<Union>version \<in> set (pairVersions sourceFilePaths versionLocalStoreIndexFilePaths).
                             versionBlocks e remoteStore storageURI writeVersionLocalStoreIndex True
                               version))]"
      by blast
  qed
qed

text \<open>
  C3 in the example world, on the store \<^verbatim>\<open>s3://bucket/store\<close>: the dry run makes the
  remote block store with the access type \<^verbatim>\<open>ReadOnly\<close>. With the list of store index
  files, block 101 comes from the version's own file and one block would be kept; without
  the list, the read-only store is asked and two blocks would be kept.
\<close>

theorem prune_dry_run_changes_nothing_witness:
  "list_all dryRunCall
     (fst (pruneStore example_env ''s3://bucket/store'' ''sources.txt'' '''' False True))
   \<and> createBlockStoreForURI (stores example_env) ''s3://bucket/store'' '''' 8388608 1024 ReadOnly
       = Returned (Inr (RemoteBlockStore (S3BlobStore ''bucket'' ''store/'') '''' 2 ReadOnly))
   \<and> pruneStore example_env ''s3://bucket/store'' ''sources.txt'' '''' False True
       = ([CreateBlockStoreCall ''s3://bucket/store'' '''' ReadOnly,
           GetExistingStoreIndexCall
             (RemoteBlockStore (S3BlobStore ''bucket'' ''store/'') '''' 2 ReadOnly) [21] 0,
           PrintWouldKeep 2], Returned None)
   \<and> pruneStore example_env ''s3://bucket/store'' ''sources.txt'' ''indexes.txt'' False True
       = ([CreateBlockStoreCall ''s3://bucket/store'' '''' ReadOnly, PrintWouldKeep 1], Returned None)"
proof -
  have run: "pruneStore example_env ''s3://bucket/store'' ''sources.txt'' '''' False True
       = ([CreateBlockStoreCall ''s3://bucket/store'' '''' ReadOnly,
           GetExistingStoreIndexCall
             (RemoteBlockStore (S3BlobStore ''bucket'' ''store/'') '''' 2 ReadOnly) [21] 0,
           PrintWouldKeep 2], Returned None)"
    by code_simp
  have run2: "pruneStore example_env ''s3://bucket/store'' ''sources.txt'' ''indexes.txt'' False True
       = ([CreateBlockStoreCall ''s3://bucket/store'' '''' ReadOnly, PrintWouldKeep 1], Returned None)"
    by code_simp
  have store: "createBlockStoreForURI (stores example_env) ''s3://bucket/store'' '''' 8388608 1024 ReadOnly
       = Returned (Inr (RemoteBlockStore (S3BlobStore ''bucket'' ''store/'') '''' 2 ReadOnly))"
    by (simp add: createBlockStoreForURI_def example_env_def example_stores_def NewS3BlobStore_def)
  from prune_dry_run_changes_nothing [of example_env "''s3://bucket/store''" "''sources.txt''" "''''" False]
  have "\<forall>c \<in> set (fst (pruneStore example_env ''s3://bucket/store'' ''sources.txt'' '''' False True)).
      dryRunCall c"
    by blast
  then show ?thesis
    using run run2 store by (simp add: list_all_iff)
qed

subsection \<open>Claim C4: the blocks of a version\<close>

text \<open>
  What the goroutine does for a version whose index is read and parsed. When a store index
  file is given for it, the store indexes are not being written, and the file is read,
  parsed and validates against the version index, the blocks of the version are those of
  the file and the remote store is not asked. When no file is given, or the store indexes
  are being written, or the file cannot be read, or its index does not validate, and the
  remote store answers the query for the chunk hashes of the version: if the answer
  validates, the blocks are those of the answer; if not, a dry run logs a warning and goes
  on without blocks for the version, and a real run sends an error, with which the scan of
  the batches ends.
\<close>

lemma processVersion_blocks:
  assumes "ReadFromURI e sourceFilePath = Inr vbuffer"
    and "ReadVersionIndexFromBuffer e vbuffer = (sourceVersionIndex, 0)"
  shows
   "(lsiPath \<noteq> '''' \<and> \<not> writeVersionLocalStoreIndex
       \<and> ReadFromURI e lsiPath = Inr sbuffer
       \<and> ReadStoreIndexFromBuffer e sbuffer = (localIndex, 0)
       \<and> ValidateStore e localIndex sourceVersionIndex = 0 \<longrightarrow>
       processVersion e remoteStore storageURI writeVersionLocalStoreIndex dryRun sourceFilePath lsiPath
         = ([], BlockHashes localIndex, None))
    \<and> ((lsiPath = '''' \<or> writeVersionLocalStoreIndex
         \<or> (\<exists>err. ReadFromURI e lsiPath = Inl err)
         \<or> (\<exists>sb si. ReadFromURI e lsiPath = Inr sb \<and> ReadStoreIndexFromBuffer e sb = (si, 0)
                \<and> ValidateStore e si sourceVersionIndex \<noteq> 0))
        \<and> GetExistingStoreIndexSync e remoteStore (ChunkHashes sourceVersionIndex) 0 = (remoteIndex, 0) \<longrightarrow>
       GetExistingStoreIndexCall remoteStore (ChunkHashes sourceVersionIndex) 0
         \<in> set (fst (processVersion e remoteStore storageURI writeVersionLocalStoreIndex dryRun
                       sourceFilePath lsiPath))
       \<and> (ValidateStore e remoteIndex sourceVersionIndex = 0 \<longrightarrow>
            fst (snd (processVersion e remoteStore storageURI writeVersionLocalStoreIndex dryRun
                        sourceFilePath lsiPath)) = BlockHashes remoteIndex)
       \<and> (ValidateStore e remoteIndex sourceVersionIndex \<noteq> 0 \<and> dryRun \<longrightarrow>
            processVersion e remoteStore storageURI writeVersionLocalStoreIndex dryRun sourceFilePath lsiPath
              = ([GetExistingStoreIndexCall remoteStore (ChunkHashes sourceVersionIndex) 0,
                  LogMissingData storageURI sourceFilePath], [], None))
       \<and> (ValidateStore e remoteIndex sourceVersionIndex \<noteq> 0 \<and> \<not> dryRun \<longrightarrow>
            snd (snd (processVersion e remoteStore storageURI writeVersionLocalStoreIndex dryRun
                        sourceFilePath lsiPath))
              = Some (ErrnoError (ValidateStore e remoteIndex sourceVersionIndex) ''Data is missing in store'')
            \<and> (\<forall>versions batchCount usedBlocks.
                  (sourceFilePath, lsiPath) \<in> set versions \<and> 0 < batchCount \<longrightarrow>
                  (\<exists>err. snd (scanBatches e remoteStore storageURI writeVersionLocalStoreIndex dryRun
                                 batchCount versions usedBlocks) = Returned (Inl err)))))"
proof (intro conjI impI)
  assume "lsiPath \<noteq> '''' \<and> \<not> writeVersionLocalStoreIndex
       \<and> ReadFromURI e lsiPath = Inr sbuffer
       \<and> ReadStoreIndexFromBuffer e sbuffer = (localIndex, 0)
       \<and> ValidateStore e localIndex sourceVersionIndex = 0"
  then show "processVersion e remoteStore storageURI writeVersionLocalStoreIndex dryRun sourceFilePath lsiPath
         = ([], BlockHashes localIndex, None)"
    using processVersion_local [OF assms] by blast
next
  assume a: "(lsiPath = '''' \<or> writeVersionLocalStoreIndex
         \<or> (\<exists>err. ReadFromURI e lsiPath = Inl err)
         \<or> (\<exists>sb si. ReadFromURI e lsiPath = Inr sb \<and> ReadStoreIndexFromBuffer e sb = (si, 0)
                \<and> ValidateStore e si sourceVersionIndex \<noteq> 0))
        \<and> GetExistingStoreIndexSync e remoteStore (ChunkHashes sourceVersionIndex) 0 = (remoteIndex, 0)"
  then have none: "readVersionLocalStoreIndex e writeVersionLocalStoreIndex lsiPath sourceVersionIndex
      = Continue None"
    using readVersionLocalStoreIndex_none by blast
  note pv = processVersion_remote [OF assms none, of remoteStore remoteIndex storageURI dryRun]
  from a have remote: "GetExistingStoreIndexSync e remoteStore (ChunkHashes sourceVersionIndex) 0
      = (remoteIndex, 0)" by blast
  show "GetExistingStoreIndexCall remoteStore (ChunkHashes sourceVersionIndex) 0
         \<in> set (fst (processVersion e remoteStore storageURI writeVersionLocalStoreIndex dryRun
                       sourceFilePath lsiPath))"
    using pv [OF remote] by simp
  show "fst (snd (processVersion e remoteStore storageURI writeVersionLocalStoreIndex dryRun
                        sourceFilePath lsiPath)) = BlockHashes remoteIndex"
    if "ValidateStore e remoteIndex sourceVersionIndex = 0"
    using pv [OF remote] that by simp
  show "processVersion e remoteStore storageURI writeVersionLocalStoreIndex dryRun sourceFilePath lsiPath
              = ([GetExistingStoreIndexCall remoteStore (ChunkHashes sourceVersionIndex) 0,
                  LogMissingData storageURI sourceFilePath], [], None)"
    if "ValidateStore e remoteIndex sourceVersionIndex \<noteq> 0 \<and> dryRun"
    using pv [OF remote] that by simp
  have err: "snd (snd (processVersion e remoteStore storageURI writeVersionLocalStoreIndex dryRun
                        sourceFilePath lsiPath))
              = Some (ErrnoError (ValidateStore e remoteIndex sourceVersionIndex) ''Data is missing in store'')"
    if "ValidateStore e remoteIndex sourceVersionIndex \<noteq> 0 \<and> \<not> dryRun"
    using pv [OF remote] that by simp
  then show "snd (snd (processVersion e remoteStore storageURI writeVersionLocalStoreIndex dryRun
                        sourceFilePath lsiPath))
              = Some (ErrnoError (ValidateStore e remoteIndex sourceVersionIndex) ''Data is missing in store'')"
    if "ValidateStore e remoteIndex sourceVersionIndex \<noteq> 0 \<and> \<not> dryRun"
    using that by blast
  show "\<forall>versions batchCount usedBlocks.
                  (sourceFilePath, lsiPath) \<in> set versions \<and> 0 < batchCount \<longrightarrow>
                  (\<exists>err. snd (scanBatches e remoteStore storageURI writeVersionLocalStoreIndex dryRun
                                 batchCount versions usedBlocks) = Returned (Inl err))"
    if "ValidateStore e remoteIndex sourceVersionIndex \<noteq> 0 \<and> \<not> dryRun"
    using scanBatches_error [of "(sourceFilePath, lsiPath)" _ e remoteStore storageURI
        writeVersionLocalStoreIndex dryRun] err [OF that]
    by auto
qed

text \<open>
  In the example world the store index file of the version is given, is read and validates
  (its only block is 101); when the store indexes are being written, the file is not looked
  at (the guard of line 2279) and the blocks are those the remote store answers with.
\<close>

lemma prune_valid_index_not_used_when_writing:
  "ReadFromURI example_env ''store/v1.lsi'' = Inr ''lsi''
   \<and> ReadStoreIndexFromBuffer example_env ''lsi'' = (\<lparr>BlockHashes = [101], StoreChunkHashes = [21]\<rparr>, 0)
   \<and> ValidateStore example_env \<lparr>BlockHashes = [101], StoreChunkHashes = [21]\<rparr> example_index = 0
   \<and> processVersion example_env (FSBlockStore ''store'') ''store'' True True
        ''store/v1.lvi'' ''store/v1.lsi''
     = ([GetExistingStoreIndexCall (FSBlockStore ''store'') [21] 0], [101, 102], None)
   \<and> fst (snd (processVersion example_env (FSBlockStore ''store'') ''store'' True True
                  ''store/v1.lvi'' ''store/v1.lsi''))
     \<noteq> BlockHashes \<lparr>BlockHashes = [101], StoreChunkHashes = [21]\<rparr>"
  by (simp add: example_env_def example_index_def processVersion_def readVersionLocalStoreIndex_def
      queryRemoteStore_def writeVersionLocalStoreIndexFile_def Let_def)

text \<open>
  C4. The claim fails on the code. In the example world the version \<^verbatim>\<open>store/v1.lvi\<close>
  has the store index file \<^verbatim>\<open>store/v1.lsi\<close>, which is read but cannot be parsed
  (errno 22); the remote store would answer the query for the version's chunk with the
  blocks 101 and 102, an answer that validates. The goroutine does not ask the remote
  store: it sends the nil error of the read and stores no block for the version. The real
  prune then returns nil after pruning the store with an empty list of blocks to keep. The
  same happens without a store index file when the query of the remote store fails (errno
  5): nil is sent, and the store is pruned with an empty list.
\<close>

theorem prune_unparsable_store_index_keeps_nothing:
  "ReadFromURI example_env_unparsable ''store/v1.lsi'' = Inr ''lsi''
   \<and> snd (ReadStoreIndexFromBuffer example_env_unparsable ''lsi'') = 22
   \<and> GetExistingStoreIndexSync example_env_unparsable
        (RemoteBlockStore (S3BlobStore ''bucket'' ''store/'') '''' 2 ReadWrite)
        (ChunkHashes example_index) 0
     = (\<lparr>BlockHashes = [101, 102], StoreChunkHashes = [21]\<rparr>, 0)
   \<and> ValidateStore example_env_unparsable \<lparr>BlockHashes = [101, 102], StoreChunkHashes = [21]\<rparr>
        example_index = 0
   \<and> processVersion example_env_unparsable
        (RemoteBlockStore (S3BlobStore ''bucket'' ''store/'') '''' 2 ReadWrite)
        ''s3://bucket/store'' False False ''store/v1.lvi'' ''store/v1.lsi''
     = ([], [], None)
   \<and> pruneStore example_env_unparsable ''s3://bucket/store'' ''sources.txt'' ''indexes.txt'' False False
     = ([CreateBlockStoreCall ''s3://bucket/store'' '''' ReadWrite,
         PruneBlocksCall (RemoteBlockStore (S3BlobStore ''bucket'' ''store/'') '''' 2 ReadWrite) [],
         PrintPruned 0,
         FlushCall [RemoteBlockStore (S3BlobStore ''bucket'' ''store/'') '''' 2 ReadWrite]],
        Returned None)
   \<and> snd (GetExistingStoreIndexSync example_env_unreachable
             (RemoteBlockStore (S3BlobStore ''bucket'' ''store/'') '''' 2 ReadWrite)
             (ChunkHashes example_index) 0) = 5
   \<and> processVersion example_env_unreachable
        (RemoteBlockStore (S3BlobStore ''bucket'' ''store/'') '''' 2 ReadWrite)
        ''s3://bucket/store'' False False ''store/v1.lvi'' ''''
     = ([GetExistingStoreIndexCall
           (RemoteBlockStore (S3BlobStore ''bucket'' ''store/'') '''' 2 ReadWrite) [21] 0],
        [], None)
   \<and> pruneStore example_env_unreachable ''s3://bucket/store'' ''sources.txt'' '''' False False
     = ([CreateBlockStoreCall ''s3://bucket/store'' '''' ReadWrite,
         GetExistingStoreIndexCall
           (RemoteBlockStore (S3BlobStore ''bucket'' ''store/'') '''' 2 ReadWrite) [21] 0,
         PruneBlocksCall (RemoteBlockStore (S3BlobStore ''bucket'' ''store/'') '''' 2 ReadWrite) [],
         PrintPruned 0,
         FlushCall [RemoteBlockStore (S3BlobStore ''bucket'' ''store/'') '''' 2 ReadWrite]],
        Returned None)"
proof -
  have facts: "ReadFromURI example_env_unparsable ''store/v1.lsi'' = Inr ''lsi''"
    "snd (ReadStoreIndexFromBuffer example_env_unparsable ''lsi'') = 22"
    "GetExistingStoreIndexSync example_env_unparsable
        (RemoteBlockStore (S3BlobStore ''bucket'' ''store/'') '''' 2 ReadWrite)
        (ChunkHashes example_index) 0
     = (\<lparr>BlockHashes = [101, 102], StoreChunkHashes = [21]\<rparr>, 0)"
    "ValidateStore example_env_unparsable \<lparr>BlockHashes = [101, 102], StoreChunkHashes = [21]\<rparr>
        example_index = 0"
    "snd (GetExistingStoreIndexSync example_env_unreachable
             (RemoteBlockStore (S3BlobStore ''bucket'' ''store/'') '''' 2 ReadWrite)
             (ChunkHashes example_index) 0) = 5"
    by (simp_all add: example_env_unparsable_def example_env_unreachable_def example_env_def
        example_index_def)
  have p1: "processVersion example_env_unparsable
        (RemoteBlockStore (S3BlobStore ''bucket'' ''store/'') '''' 2 ReadWrite)
        ''s3://bucket/store'' False False ''store/v1.lvi'' ''store/v1.lsi''
     = ([], [], None)"
    by (simp add: example_env_unparsable_def example_env_def processVersion_def
        readVersionLocalStoreIndex_def)
  have p2: "processVersion example_env_unreachable
        (RemoteBlockStore (S3BlobStore ''bucket'' ''store/'') '''' 2 ReadWrite)
        ''s3://bucket/store'' False False ''store/v1.lvi'' ''''
     = ([GetExistingStoreIndexCall
           (RemoteBlockStore (S3BlobStore ''bucket'' ''store/'') '''' 2 ReadWrite) [21] 0],
        [], None)"
    by (simp add: example_env_unreachable_def example_env_def example_index_def processVersion_def
        readVersionLocalStoreIndex_def queryRemoteStore_def Let_def)
  have r1: "pruneStore example_env_unparsable ''s3://bucket/store'' ''sources.txt'' ''indexes.txt''
      False False
     = ([CreateBlockStoreCall ''s3://bucket/store'' '''' ReadWrite,
         PruneBlocksCall (RemoteBlockStore (S3BlobStore ''bucket'' ''store/'') '''' 2 ReadWrite) [],
         PrintPruned 0,
         FlushCall [RemoteBlockStore (S3BlobStore ''bucket'' ''store/'') '''' 2 ReadWrite]],
        Returned None)"
    by code_simp
  have r2: "pruneStore example_env_unreachable ''s3://bucket/store'' ''sources.txt'' '''' False False
     = ([CreateBlockStoreCall ''s3://bucket/store'' '''' ReadWrite,
         GetExistingStoreIndexCall
           (RemoteBlockStore (S3BlobStore ''bucket'' ''store/'') '''' 2 ReadWrite) [21] 0,
         PruneBlocksCall (RemoteBlockStore (S3BlobStore ''bucket'' ''store/'') '''' 2 ReadWrite) [],
         PrintPruned 0,
         FlushCall [RemoteBlockStore (S3BlobStore ''bucket'' ''store/'') '''' 2 ReadWrite]],
        Returned None)"
    by code_simp
  show ?thesis
    by (simp only: facts p1 p2 r1 r2 simp_thms)
qed

subsection \<open>The asset fragmentation\<close>

lemma ucast_of_nat_32_64:
  "n < 2 ^ 32 \<Longrightarrow> (ucast (of_nat n :: 32 word) :: 64 word) = of_nat n"
  by (simp add: word_unat_eq_iff unsigned_ucast_eq unat_of_nat take_bit_eq_mod)

lemma of_nat_pos_32: "0 < n \<Longrightarrow> n < 2 ^ 32 \<Longrightarrow> (0 :: 32 word) < of_nat n"
  by (simp add: word_less_nat_alt unat_of_nat)

lemma fragmentation_wraps:
  assumes "f < a" "a < 2 ^ 32"
  shows "unat (ucast ((100 * (of_nat f :: 64 word)) div (of_nat a :: 64 word) - 100) :: 32 word)
     = 2 ^ 32 - 100 + (100 * f) div a"
proof -
  have f: "100 * f < 2 ^ 64" using assms by simp
  have q: "(100 * f) div a < 100"
    using assms(1) by (simp add: less_mult_imp_div_less)
  have u1: "unat (100 * (of_nat f :: 64 word)) = 100 * f"
    using f by (simp add: unat_word_ariths unat_of_nat)
  have u2: "unat (of_nat a :: 64 word) = a"
    using assms(2) by (simp add: unat_of_nat)
  have u3: "unat ((100 * (of_nat f :: 64 word)) div (of_nat a :: 64 word)) = (100 * f) div a"
    by (simp add: unat_div u1 u2)
  have u4: "unat ((100 * (of_nat f :: 64 word)) div (of_nat a :: 64 word) - 100)
      = (100 * f) div a + 2 ^ 64 - 100"
    using q by (simp add: unat_sub_if_size u3 word_size)
  have "unat (ucast ((100 * (of_nat f :: 64 word)) div (of_nat a :: 64 word) - 100) :: 32 word)
      = ((100 * f) div a + 2 ^ 64 - 100) mod 2 ^ 32"
    by (simp add: unsigned_ucast_eq take_bit_eq_mod u4)
  also have "\<dots> = 2 ^ 32 - 100 + (100 * f) div a"
  proof -
    have "(100 * f) div a + 2 ^ 64 - 100 = (2 ^ 32 - 100 + (100 * f) div a) + (2 ^ 32 - 1) * 2 ^ 32"
      by simp
    moreover have "2 ^ 32 - 100 + (100 * f) div a < (2 :: nat) ^ 32"
      using q by simp
    ultimately show ?thesis
      by (simp only: mod_mult_self1 mod_mult_self2 mod_less)
  qed
  finally show ?thesis .
qed

lemma runsAfter_remdups_adj: "runsAfter lastBlock bs = length (remdups_adj (lastBlock # bs)) - 1"
proof (induction bs arbitrary: lastBlock)
  case Nil
  then show ?case by simp
next
  case (Cons b bs)
  have "length (remdups_adj (b # bs)) \<ge> 1"
    by (cases "remdups_adj (b # bs)") (simp_all add: remdups_adj_Nil_iff)
  then show ?case
    using Cons.IH [of b] Cons.IH [of lastBlock] by auto
qed

lemma countedFragments_eq:
  "blocks = [] \<or> hd blocks \<noteq> NOT 0 \<Longrightarrow> countedFragments blocks = fragments blocks"
  by (cases blocks) (auto simp: countedFragments_def fragments_def runsAfter_remdups_adj)

lemma countedFragments_sentinel:
  "blocks \<noteq> [] \<Longrightarrow> hd blocks = NOT 0 \<Longrightarrow> countedFragments blocks = fragments blocks - 1"
  by (cases blocks) (auto simp: countedFragments_def fragments_def runsAfter_remdups_adj)

lemma go_index_word:
  fixes w :: "32 word"
  assumes h: "unat w < length xs"
  shows "go_index xs (uint w) = Some (xs ! unat w)"
proof -
  have "nat (uint w) < length xs"
    using h by (simp only: unat_eq_nat_uint)
  then have lt: "uint w < int (length xs)"
    by (simp only: nat_less_iff [OF uint_ge_0])
  have ge: "0 \<le> uint w" by (rule uint_ge_0)
  have "nat (uint w) = unat w" by (simp only: unat_eq_nat_uint)
  with lt ge show ?thesis
    by (simp only: go_index_def if_True simp_thms)
qed

lemma countFragments_runs:
  assumes "list_all (\<lambda>c. c < length (AssetChunkIndexes v)
                         \<and> unat (AssetChunkIndexes v ! c) < length (ChunkHashes v)) cs"
  shows "countFragments bl v cs lastBlock n =
     Inr (last (lastBlock # map (\<lambda>c. map_get bl (ChunkHashes v ! unat (AssetChunkIndexes v ! c))) cs),
          n + of_nat (runsAfter lastBlock
                 (map (\<lambda>c. map_get bl (ChunkHashes v ! unat (AssetChunkIndexes v ! c))) cs)))"
  using assms
proof (induction cs arbitrary: lastBlock n)
  case Nil
  then show ?case by simp
next
  case (Cons c cs)
  let ?key = "\<lambda>c. map_get bl (ChunkHashes v ! unat (AssetChunkIndexes v ! c))"
  from Cons.prems have c: "c < length (AssetChunkIndexes v)"
    and h: "unat (AssetChunkIndexes v ! c) < length (ChunkHashes v)"
    and rest: "list_all (\<lambda>c. c < length (AssetChunkIndexes v)
                         \<and> unat (AssetChunkIndexes v ! c) < length (ChunkHashes v)) cs"
    by simp_all
  have i1: "go_index (AssetChunkIndexes v) (int c) = Some (AssetChunkIndexes v ! c)"
    using c by (simp add: go_index_def)
  have i2: "go_index (ChunkHashes v) (uint (AssetChunkIndexes v ! c))
      = Some (ChunkHashes v ! unat (AssetChunkIndexes v ! c))"
    using h by (rule go_index_word)
  show ?case
  proof (cases "?key c = lastBlock")
    case True
    then show ?thesis
      using Cons.IH [OF rest, of lastBlock n] i1 i2 by (simp add: Let_def)
  next
    case False
    then show ?thesis
      using Cons.IH [OF rest, of "?key c" "n + 1"] i1 i2
      by (simp add: Let_def add.assoc)
  qed
qed

lemma countAllFragments_sum:
  assumes "list_all (\<lambda>a. list_all (\<lambda>c. c < length (AssetChunkIndexes v)
                                      \<and> unat (AssetChunkIndexes v ! c) < length (ChunkHashes v))
                              (chunkRange a)) as"
  shows "countAllFragments bl v as n =
     Inr (n + of_nat (\<Sum>a \<leftarrow> as. countedFragments (assetBlocks bl v a)))"
  using assms
proof (induction as arbitrary: n)
  case Nil
  then show ?case by simp
next
  case (Cons a as)
  from Cons.prems have a: "list_all (\<lambda>c. c < length (AssetChunkIndexes v)
                         \<and> unat (AssetChunkIndexes v ! c) < length (ChunkHashes v)) (chunkRange a)"
    and rest: "list_all (\<lambda>a. list_all (\<lambda>c. c < length (AssetChunkIndexes v)
                                      \<and> unat (AssetChunkIndexes v ! c) < length (ChunkHashes v))
                              (chunkRange a)) as"
    by simp_all
  have "countFragments bl v (chunkRange a) (NOT 0) n =
      Inr (last (NOT 0 # assetBlocks bl v a), n + of_nat (countedFragments (assetBlocks bl v a)))"
    using countFragments_runs [OF a, of bl "NOT 0" n]
    by (simp only: countedFragments_def assetBlocks_def)
  then show ?case
    using Cons.IH [OF rest] by (simp add: add.assoc)
qed

lemma GetAssetCount_wellFormed: "wellFormed v \<Longrightarrow> unat (GetAssetCount v) = length (Assets v)"
  by (simp add: wellFormed_def GetAssetCount_def unat_of_nat)

lemma assetFragmentCount_counted:
  assumes "wellFormed v"
  shows "assetFragmentCount bl v = Inr (of_nat (\<Sum>a \<leftarrow> Assets v. countedFragments (assetBlocks bl v a)))"
proof -
  from assms have "list_all (\<lambda>a. list_all (\<lambda>c. c < length (AssetChunkIndexes v)
                                      \<and> unat (AssetChunkIndexes v ! c) < length (ChunkHashes v))
                              (chunkRange a)) (Assets v)"
    by (simp add: wellFormed_def)
  from countAllFragments_sum [OF this, of bl 0] show ?thesis
    using assms by (simp add: assetFragmentCount_def GetAssetCount_wellFormed)
qed

lemma assetFragmentation_counted:
  assumes "wellFormed v" and "Assets v \<noteq> []"
  shows "assetFragmentation bl v =
     Inr (fragmentationOf (\<Sum>a \<leftarrow> Assets v. countedFragments (assetBlocks bl v a)) (length (Assets v)))"
proof -
  from assms have len: "0 < length (Assets v)" "length (Assets v) < 2 ^ 32"
    by (simp_all add: wellFormed_def)
  have pos: "GetAssetCount v > 0"
    using of_nat_pos_32 [OF len] by (simp add: GetAssetCount_def)
  have "(ucast (GetAssetCount v) :: u64) = of_nat (length (Assets v))"
    using ucast_of_nat_32_64 [OF len(2)] by (simp add: GetAssetCount_def)
  with pos show ?thesis
    using assetFragmentCount_counted [OF assms(1), of bl]
    by (simp add: assetFragmentation_def fragmentationOf_def)
qed

text \<open>
  For a well-formed version index with at least one asset in which no asset begins in a
  block whose hash has all bits set, the statistic is 100 * fragments / assets - 100 in
  unsigned 64-bit arithmetic cut to 32 bits, with the fragments the maximal runs; and with
  fewer fragments than assets it wraps around to 2^32 - 100 + 100 * fragments / assets.
\<close>

lemma assetFragmentation_formula:
  assumes "wellFormed v" and "Assets v \<noteq> []"
    and "list_all (\<lambda>a. assetBlocks bl v a = [] \<or> hd (assetBlocks bl v a) \<noteq> NOT 0) (Assets v)"
  shows "assetFragmentation bl v = Inr (fragmentationOf (totalFragments bl v) (length (Assets v)))"
    and "totalFragments bl v < length (Assets v) \<Longrightarrow>
         unat (fragmentationOf (totalFragments bl v) (length (Assets v)))
           = 2 ^ 32 - 100 + (100 * totalFragments bl v) div length (Assets v)"
proof -
  have "(\<Sum>a \<leftarrow> Assets v. countedFragments (assetBlocks bl v a))
      = (\<Sum>a \<leftarrow> Assets v. fragments (assetBlocks bl v a))"
    using assms(3)
    by (intro arg_cong [where f = sum_list] map_cong refl) (auto simp: list_all_iff countedFragments_eq)
  then show "assetFragmentation bl v = Inr (fragmentationOf (totalFragments bl v) (length (Assets v)))"
    using assetFragmentation_counted [OF assms(1,2), of bl] by (simp only: totalFragments_def)
  show "unat (fragmentationOf (totalFragments bl v) (length (Assets v)))
           = 2 ^ 32 - 100 + (100 * totalFragments bl v) div length (Assets v)"
    if "totalFragments bl v < length (Assets v)"
    using fragmentation_wraps [OF that] assms(1)
    by (simp add: fragmentationOf_def wellFormed_def)
qed

subsection \<open>Claim C6: what the statistic counts\<close>

text \<open>
  C6. The claim takes the fragments to be the maximal runs of consecutive chunks of an
  asset in one block. The loop starts each asset with \<open>lastBlockIndex\<close> set to all bits,
  so a first run in the block with that hash is not counted. In the example index, whose
  one asset has one chunk, with that chunk in block \<^verbatim>\<open>0xFFFFFFFFFFFFFFFF\<close>: there is one
  fragment and the claim's value is 100 * 1 / 1 - 100 = 0, but the loop counts none and the
  statistic is 0 / 1 - 100 wrapped to 4294967196. With the chunk in block 101 it is 0.
\<close>

theorem fragmentation_misses_run_in_last_block:
  "wellFormed example_index
   \<and> assetBlocks [21 \<mapsto> NOT 0] example_index (hd (Assets example_index)) = [NOT 0]
   \<and> totalFragments [21 \<mapsto> NOT 0] example_index = 1
   \<and> fragmentationOf 1 1 = 0
   \<and> assetFragmentCount [21 \<mapsto> NOT 0] example_index = Inr 0
   \<and> assetFragmentation [21 \<mapsto> NOT 0] example_index = Inr 4294967196
   \<and> assetFragmentation [21 \<mapsto> 101] example_index = Inr 0"
proof -
  have "wellFormed example_index"
    by (simp add: wellFormed_def example_index_def chunkRange_def)
  moreover have "assetBlocks [21 \<mapsto> NOT 0] example_index (hd (Assets example_index)) = [NOT 0]"
    by (simp add: example_index_def assetBlocks_def chunkRange_def map_get_def)
  moreover have "totalFragments [21 \<mapsto> NOT 0] example_index = 1"
    by (simp add: example_index_def assetBlocks_def chunkRange_def map_get_def totalFragments_def
        fragments_def)
  moreover have "fragmentationOf 1 1 = 0"
    by (simp add: fragmentationOf_def)
  moreover have "assetFragmentCount [21 \<mapsto> NOT 0] example_index = Inr 0"
    by (simp add: example_index_def chunkRange_def map_get_def assetFragmentCount_def
        GetAssetCount_def go_index_def)
  moreover have "assetFragmentation [21 \<mapsto> NOT 0] example_index = Inr 4294967196"
    by (simp add: example_index_def chunkRange_def map_get_def assetFragmentCount_def
        assetFragmentation_def GetAssetCount_def go_index_def)
  moreover have "assetFragmentation [21 \<mapsto> 101] example_index = Inr 0"
    by (simp add: example_index_def chunkRange_def map_get_def assetFragmentCount_def
        assetFragmentation_def GetAssetCount_def go_index_def)
  ultimately show ?thesis by blast
qed

end
